theory Spec2Isabelle
  imports Complex_Main "HOL-Library.Signed_Division"
begin

section \<open>Charge deposition on a tile: the entry point \<open>deposit_charge\<close>\<close>

text \<open>
  The development embeds \<^verbatim>\<open>ablastr::particles::deposit_charge\<close> (the header guarded by
  \<^verbatim>\<open>ABLASTR_DEPOSIT_CHARGE_H_\<close>). The function is one C++ template whose body is
  selected by preprocessor switches; the switches are the record \<open>build\<close> below, so that
  one definition covers every build.

  C++ \<^verbatim>\<open>int\<close> and \<^verbatim>\<open>long\<close> values are modelled as \<open>int\<close>. The one sum of two
  \<^verbatim>\<open>long\<close> arguments, \<^verbatim>\<open>np_to_deposit.value() + offset\<close> at line 84, is taken modulo
  \<open>2 ^ 64\<close> (\<open>long_wrap\<close> below). The other integer operations work on levels, shape orders,
  guard widths and component indices; they are computed over the integers, which is what
  the code computes whenever the result fits the 32-bit \<^verbatim>\<open>int\<close>, as \<^verbatim>\<open>nox/2+1\<close> does at every
  order. Integer division is the truncating \<open>sdiv\<close>. Cell values (\<^verbatim>\<open>amrex::Real\<close>) are modelled
  by the real number they denote; rounding is not modelled.
\<close>

subsection \<open>Build configuration\<close>

datatype warpx_dim = WARPX_DIM_1D_Z | WARPX_DIM_XZ | WARPX_DIM_RZ | WARPX_DIM_3D

record build =
  dim :: warpx_dim
  AMREX_USE_GPU :: bool

text \<open>\<^verbatim>\<open>AMREX_SPACEDIM\<close>, the number of components of an \<^verbatim>\<open>IntVect\<close>.\<close>

fun spacedim :: "warpx_dim \<Rightarrow> nat" where
  "spacedim WARPX_DIM_1D_Z = 1"
| "spacedim WARPX_DIM_XZ = 2"
| "spacedim WARPX_DIM_RZ = 2"
| "spacedim WARPX_DIM_3D = 3"

subsection \<open>Index space of the mesh library\<close>

text \<open>
  \<^verbatim>\<open>amrex::IntVect\<close> is a vector of \<^verbatim>\<open>AMREX_SPACEDIM\<close> ints, \<^verbatim>\<open>amrex::Box\<close> a pair of
  corners with an index type (0 cell-centred, 1 nodal) per direction. Only the operations
  that \<open>deposit_charge\<close> calls are given, as the mesh library documents them; vectors of one
  build all have \<^verbatim>\<open>AMREX_SPACEDIM\<close> components.
\<close>

type_synonym intvect = "int list"

definition iv_plus :: "intvect \<Rightarrow> intvect \<Rightarrow> intvect" where
  "iv_plus a b = map2 (+) a b"

definition iv_minus :: "intvect \<Rightarrow> intvect \<Rightarrow> intvect" where
  "iv_minus a b = map2 (-) a b"

text \<open>\<^verbatim>\<open>a.allLE(b)\<close>: every component of \<open>a\<close> is at most the one of \<open>b\<close>.\<close>

definition allLE :: "intvect \<Rightarrow> intvect \<Rightarrow> bool" where
  "allLE a b = list_all2 (\<le>) a b"

record box =
  smallEnd :: intvect
  bigEnd :: intvect
  btype :: intvect

definition grow :: "box \<Rightarrow> intvect \<Rightarrow> box" where
  "grow bx n = bx\<lparr>smallEnd := iv_minus (smallEnd bx) n, bigEnd := iv_plus (bigEnd bx) n\<rparr>"

text \<open>\<^verbatim>\<open>amrex::convert(box, typ)\<close>: the upper corner moves by the change of index type.\<close>

definition convert :: "box \<Rightarrow> intvect \<Rightarrow> box" where
  "convert bx typ = bx\<lparr>bigEnd := iv_plus (bigEnd bx) (iv_minus typ (btype bx)), btype := typ\<rparr>"

definition contains :: "box \<Rightarrow> intvect \<Rightarrow> bool" where
  "contains bx p = (allLE (smallEnd bx) p \<and> allLE p (bigEnd bx))"

text \<open>\<^verbatim>\<open>lbound(box)\<close>: the lower corner as a \<^verbatim>\<open>Dim3\<close>, unused directions set to 0.\<close>

fun lbound :: "box \<Rightarrow> int \<times> int \<times> int" where
  "lbound bx =
     (case smallEnd bx of
        [x] \<Rightarrow> (x, 0, 0)
      | [x, y] \<Rightarrow> (x, y, 0)
      | x # y # z # _ \<Rightarrow> (x, y, z)
      | [] \<Rightarrow> (0, 0, 0))"

subsection \<open>Fields\<close>

text \<open>
  An \<^verbatim>\<open>FArrayBox\<close> holds \<open>ncomp\<close> values per cell of its box. A \<^verbatim>\<open>MultiFab\<close> is seen
  through the one box the particle iterator points to: \<open>fab\<close> is \<^verbatim>\<open>(*rho)[pti]\<close>.
\<close>

record farraybox =
  fbox :: box
  ncomp :: int
  fdata :: "intvect \<Rightarrow> int \<Rightarrow> real"

record multifab =
  nGrowVect :: intvect
  ixType :: intvect
  fab :: farraybox

text \<open>\<^verbatim>\<open>resize\<close> gives the buffer a new box and component count; its contents are stale.\<close>

definition resize :: "farraybox \<Rightarrow> box \<Rightarrow> int \<Rightarrow> farraybox" where
  "resize f bx n = f\<lparr>fbox := bx, ncomp := n\<rparr>"

definition setVal :: "farraybox \<Rightarrow> real \<Rightarrow> farraybox" where
  "setVal f v =
     f\<lparr>fdata := (\<lambda>p c. if contains (fbox f) p \<and> 0 \<le> c \<and> c < ncomp f then v else fdata f p c)\<rparr>"

text \<open>
  Modelled from the spec: the merge of the buffered-merge mode, \<^verbatim>\<open>lockAdd\<close>, whose code is
  in the mesh library: the scratch buffer's contents are added into the shared field over
  the given region only: cell by cell from \<open>srcbox\<close> onto \<open>destbox\<close>, \<open>numcomp\<close> components
  from \<open>srccomp\<close> onto \<open>destcomp\<close>.
\<close>

definition lockAdd ::
  "farraybox \<Rightarrow> farraybox \<Rightarrow> box \<Rightarrow> box \<Rightarrow> int \<Rightarrow> int \<Rightarrow> int \<Rightarrow> farraybox" where
  "lockAdd dest src srcbox destbox srccomp destcomp numcomp =
     dest\<lparr>fdata := (\<lambda>p c. if contains destbox p \<and> destcomp \<le> c \<and> c < destcomp + numcomp
                          then fdata dest p c
                               + fdata src (iv_plus p (iv_minus (smallEnd srcbox) (smallEnd destbox)))
                                   (c - destcomp + srccomp)
                          else fdata dest p c)\<rparr>"

text \<open>
  Modelled from the spec: the alias view of the direct-scatter mode
  (\<^verbatim>\<open>MultiFab(*rho, make_alias, scomp, ncomp)\<close>, code in the mesh library): a read/write
  view of the shared field restricted to a component range. \<open>alias_view\<close> reads through
  the view, \<open>alias_store\<close> is the shared field after the view has been written.
\<close>

definition alias_view :: "farraybox \<Rightarrow> int \<Rightarrow> int \<Rightarrow> farraybox" where
  "alias_view f sc n = \<lparr>fbox = fbox f, ncomp = n, fdata = (\<lambda>p c. fdata f p (c + sc))\<rparr>"

definition alias_store :: "farraybox \<Rightarrow> int \<Rightarrow> int \<Rightarrow> farraybox \<Rightarrow> farraybox" where
  "alias_store f sc n v =
     f\<lparr>fdata := (\<lambda>p c. if sc \<le> c \<and> c < sc + n then fdata v p (c - sc) else fdata f p c)\<rparr>"

subsection \<open>Particles and collaborators\<close>

text \<open>
  The particle iterator \<open>pti\<close>: the particles of one tile (of a type \<open>'p\<close> the deposition
  entry point never inspects), the level that owns them, and the tile box.
\<close>

record 'p pariter =
  particles :: "'p list"
  GetLevel :: int
  tilebox :: box

definition numParticles :: "'p pariter \<Rightarrow> int" where
  "numParticles pti = int (length (particles pti))"

text \<open>What the entry point hands to the deposition kernel, argument by argument.\<close>

record 'p kargs =
  k_GetPosition :: "'p list \<times> int"
  k_wp :: "real list \<times> int"
  k_ion_lev :: "int list option"
  k_np_to_deposit :: int
  k_dx :: "real \<times> real \<times> real"
  k_xyzmin :: "real \<times> real \<times> real"
  k_lo :: "int \<times> int \<times> int"
  k_q :: real
  k_n_rz_azimuthal_modes :: int

text \<open>
  Functions called by \<open>deposit_charge\<close> whose code is not part of the header: the
  out-of-range count and box coarsening of the mesh library, and the deposition kernel
  \<^verbatim>\<open>doChargeDepositionShapeN<order>\<close>, which maps the target array to the target array
  after the scatter. They are parameters: every theorem holds for all of them.
\<close>

record 'p collab =
  numParticlesOutOfRange :: "'p pariter \<Rightarrow> intvect \<Rightarrow> int"
  coarsen :: "box \<Rightarrow> intvect \<Rightarrow> box"
  doChargeDepositionShapeN :: "int \<Rightarrow> 'p kargs \<Rightarrow> farraybox \<Rightarrow> farraybox"

subsection \<open>Arguments, state and outcome\<close>

text \<open>
  The parameters of \<open>deposit_charge\<close> other than \<open>pti\<close>, \<open>rho\<close> and \<open>local_rho\<close>;
  a defaulted \<^verbatim>\<open>std::optional\<close> is \<open>None\<close>, a null \<open>ion_lev\<close> is \<open>None\<close>. The flag
  \<^verbatim>\<open>do_device_synchronize\<close> only reaches the profiler and is left out.
\<close>

record args =
  wp :: "real list"
  charge :: real
  ion_lev :: "int list option"
  particle_shape :: int
  dx :: "real \<times> real \<times> real"
  xyzmin :: "real \<times> real \<times> real"
  n_rz_azimuthal_modes :: int
  num_rho_deposition_guards :: "intvect option"
  depos_lev :: "int option"
  rel_ref_ratio :: "intvect option"
  offset :: int
  np_to_deposit :: "int option"
  icomp :: int
  nc :: int

text \<open>The two fields the call may write: the shared charge density and the scratch buffer.\<close>

record dstate =
  rho :: multifab
  local_rho :: farraybox

text \<open>
  The five \<^verbatim>\<open>ABLASTR_ALWAYS_ASSERT_WITH_MESSAGE\<close> of the function, in source order. A
  failed assertion aborts the run with its message.
\<close>

datatype error =
    Guards_larger_than_allocated
  | Count_out_of_bounds
  | Bad_deposition_level
  | Missing_ref_ratio
  | Shape_does_not_fit

fun message :: "error \<Rightarrow> string" where
  "message Guards_larger_than_allocated = ''num_rho_deposition_guards are larger than allocated!''"
| "message Count_out_of_bounds = ''np_to_deposit + offset are out-of-bounds for particle iterator''"
| "message Bad_deposition_level = ''Deposition buffers only work for lev or lev-1''"
| "message Missing_ref_ratio = ''rel_ref_ratio must be set if lev != depos_lev''"
| "message Shape_does_not_fit =
     ''Particles shape does not fit within tile (CPU) or guard cells (GPU) used for charge deposition''"

datatype status = Aborted error | Returned

subsection \<open>The function\<close>

text \<open>
  Lines 69 to 98: the optional arguments are resolved and checked. The result is the
  first failed assertion, or the values of \<open>ng_rho\<close>, \<open>np_to_deposit\<close>,
  \<open>depos_lev\<close> and \<open>rel_ref_ratio\<close>.
\<close>

record resolved =
  r_ng_rho :: intvect
  r_np_to_deposit :: int
  r_depos_lev :: int
  r_rel_ref_ratio :: intvect

text \<open>
  A 64-bit \<^verbatim>\<open>long\<close> holds the values from \<open>- (2 ^ 63)\<close> to \<open>2 ^ 63 - 1\<close>. The sum of two of
  them is computed in two's complement: a sum outside that range comes back wrapped
  around modulo \<open>2 ^ 64\<close>, and the assertion at line 84 compares the wrapped value.
\<close>

definition long_wrap :: "int \<Rightarrow> int" where
  "long_wrap k = (k + 2 ^ 63) mod 2 ^ 64 - 2 ^ 63"

text \<open>Lines 70 to 73, 81 to 83 and 87 to 90: the defaults of three optional arguments.\<close>

definition ng_rho_of :: "args \<Rightarrow> multifab \<Rightarrow> intvect" where
  "ng_rho_of a rh = (case num_rho_deposition_guards a of None \<Rightarrow> nGrowVect rh | Some g \<Rightarrow> g)"

definition np_to_deposit_of :: "args \<Rightarrow> 'p pariter \<Rightarrow> int" where
  "np_to_deposit_of a pti = (case np_to_deposit a of None \<Rightarrow> numParticles pti | Some n \<Rightarrow> n)"

definition depos_lev_of :: "args \<Rightarrow> 'p pariter \<Rightarrow> int" where
  "depos_lev_of a pti = (case depos_lev a of None \<Rightarrow> GetLevel pti | Some l \<Rightarrow> l)"

definition resolve_args :: "build \<Rightarrow> args \<Rightarrow> multifab \<Rightarrow> 'p pariter \<Rightarrow> error + resolved" where
  "resolve_args b a rh pti =
     (let ng_rho = ng_rho_of a rh in
      if \<not> allLE ng_rho (nGrowVect rh) then Inl Guards_larger_than_allocated
      else
        let np = np_to_deposit_of a pti in
        if \<not> (long_wrap (np + offset a) \<le> numParticles pti) then Inl Count_out_of_bounds
        else
          let lev = GetLevel pti;
              dlev = depos_lev_of a pti in
          if \<not> (dlev = lev - 1 \<or> dlev = lev) then Inl Bad_deposition_level
          else
            (case rel_ref_ratio a of
               None \<Rightarrow>
                 if \<not> (lev = dlev) then Inl Missing_ref_ratio
                 else Inr \<lparr>r_ng_rho = ng_rho, r_np_to_deposit = np, r_depos_lev = dlev,
                           r_rel_ref_ratio = replicate (spacedim (dim b)) 1\<rparr>
             | Some ratio \<Rightarrow>
                 Inr \<lparr>r_ng_rho = ng_rho, r_np_to_deposit = np, r_depos_lev = dlev,
                      r_rel_ref_ratio = ratio\<rparr>))"

text \<open>Lines 108 to 120: the extent of the particle shape, per build dimension.\<close>

definition shape_extent :: "warpx_dim \<Rightarrow> int \<Rightarrow> int \<Rightarrow> int \<Rightarrow> intvect" where
  "shape_extent d nox noy noz =
     (case d of
        WARPX_DIM_1D_Z \<Rightarrow> [noz sdiv 2 + 1]
      | WARPX_DIM_XZ \<Rightarrow> [nox sdiv 2 + 1, noz sdiv 2 + 1]
      | WARPX_DIM_RZ \<Rightarrow> [nox sdiv 2 + 1, noz sdiv 2 + 1]
      | WARPX_DIM_3D \<Rightarrow> [nox sdiv 2 + 1, noy sdiv 2 + 1, noz sdiv 2 + 1])"

text \<open>Lines 124 to 128: the margin left for the particles, \<open>range\<close> in the source.\<close>

definition range_dep :: "build \<Rightarrow> multifab \<Rightarrow> intvect \<Rightarrow> intvect \<Rightarrow> intvect" where
  "range_dep b rh ng_rho ext =
     (if \<not> AMREX_USE_GPU b then iv_minus ng_rho ext else iv_minus (nGrowVect rh) ext)"

text \<open>
  Lines 178 to 194: the dispatch on the shape order. \<open>None\<close> says that no branch was taken
  and no kernel ran; otherwise the result is the target array after the kernel.
\<close>

definition dispatch :: "'p collab \<Rightarrow> int \<Rightarrow> 'p kargs \<Rightarrow> farraybox \<Rightarrow> farraybox option" where
  "dispatch c nox ka rho_fab =
     (if nox = 1 then Some (doChargeDepositionShapeN c 1 ka rho_fab)
      else if nox = 2 then Some (doChargeDepositionShapeN c 2 ka rho_fab)
      else if nox = 3 then Some (doChargeDepositionShapeN c 3 ka rho_fab)
      else if nox = 4 then Some (doChargeDepositionShapeN c 4 ka rho_fab)
      else None)"

text \<open>
  Lines 171 to 181: the arguments of the kernel call. The position accessor is built from
  the iterator's particles and \<open>offset\<close>, the weights start at \<open>offset\<close>, and \<open>lo\<close> is the
  lower corner of the tile box after it has been grown by \<open>ng_rho\<close> (lines 152 and 174).
\<close>

definition kernel_args :: "'p list \<Rightarrow> args \<Rightarrow> resolved \<Rightarrow> box \<Rightarrow> 'p kargs" where
  "kernel_args ps a r tbx =
     (let tilebox' = grow tbx (r_ng_rho r) in
      \<lparr>k_GetPosition = (ps, offset a), k_wp = (wp a, offset a), k_ion_lev = ion_lev a,
       k_np_to_deposit = r_np_to_deposit r, k_dx = dx a, k_xyzmin = xyzmin a,
       k_lo = lbound tilebox', k_q = charge a,
       k_n_rz_azimuthal_modes = n_rz_azimuthal_modes a\<rparr>)"

text \<open>
  Lines 147 to 202: everything after the tile box has been chosen. The box chosen at lines
  140 to 145 is the argument \<open>tbx\<close>; of the iterator only the particles are passed on, so
  all index arithmetic here starts from \<open>tbx\<close>.
\<close>

definition scatter ::
  "build \<Rightarrow> 'p collab \<Rightarrow> 'p list \<Rightarrow> args \<Rightarrow> resolved \<Rightarrow> box \<Rightarrow> dstate \<Rightarrow> dstate" where
  "scatter b c ps a r tbx s =
     (let ng_rho = r_ng_rho r;
          tb = convert tbx (ixType (rho s));
          ka = kernel_args ps a r tbx
      in
        if AMREX_USE_GPU b then
          (let rho_fab = alias_view (fab (rho s)) (icomp a * nc a) (nc a) in
           case dispatch c (particle_shape a) ka rho_fab of
             None \<Rightarrow> s
           | Some rho_fab' \<Rightarrow>
               s\<lparr>rho := (rho s)\<lparr>fab := alias_store (fab (rho s)) (icomp a * nc a) (nc a) rho_fab'\<rparr>\<rparr>)
        else
          (let tb' = grow tb ng_rho;
               rho_fab = setVal (resize (local_rho s) tb' (nc a)) 0;
               rho_fab' = (case dispatch c (particle_shape a) ka rho_fab of
                             None \<Rightarrow> rho_fab | Some f \<Rightarrow> f)
           in s\<lparr>rho := (rho s)\<lparr>fab := lockAdd (fab (rho s)) rho_fab' tb' tb' 0 (icomp a * nc a) (nc a)\<rparr>,
                local_rho := rho_fab'\<rparr>))"

text \<open>
  The whole function. The state returned with \<open>Aborted\<close> is the state at the failed
  assertion.
\<close>

definition deposit_charge ::
  "build \<Rightarrow> 'p collab \<Rightarrow> 'p pariter \<Rightarrow> args \<Rightarrow> dstate \<Rightarrow> status \<times> dstate" where
  "deposit_charge b c pti a s =
     (case resolve_args b a (rho s) pti of
        Inl e \<Rightarrow> (Aborted e, s)
      | Inr r \<Rightarrow>
          if r_np_to_deposit r = 0 then (Returned, s)
          else
            let shape = shape_extent (dim b) (particle_shape a) (particle_shape a) (particle_shape a);
                rng = range_dep b (rho s) (r_ng_rho r) shape
            in
              if \<not> (numParticlesOutOfRange c pti rng = 0) then (Aborted Shape_does_not_fit, s)
              else
                let tbx = (if GetLevel pti = r_depos_lev r then tilebox pti
                           else coarsen c (tilebox pti) (r_rel_ref_ratio r))
                in (Returned, scatter b c (particles pti) a r tbx s))"

subsection \<open>The guard extent in the words of the specification\<close>

text \<open>The specification's \<open>requiredGuard(order) = ceil(order/2) + 1\<close>.\<close>

definition requiredGuard_spec :: "int \<Rightarrow> int" where
  "requiredGuard_spec n = \<lceil>real_of_int n / 2\<rceil> + 1"

subsection \<open>A concrete tile\<close>

text \<open>
  One instance of the collaborators, for running the function: a particle is the cell it
  lies in, a particle is out of range when that cell is outside the tile box grown by the
  margin, coarsening divides both corners of a cell-centred box rounding down, and the
  kernel adds the charge of the particles it is given to every value of its target.
\<close>

definition count_out_of_range :: "intvect pariter \<Rightarrow> intvect \<Rightarrow> int" where
  "count_out_of_range pti rng =
     int (length (filter (\<lambda>p. \<not> contains (grow (tilebox pti) rng) p) (particles pti)))"

definition coarsen_cc :: "box \<Rightarrow> intvect \<Rightarrow> box" where
  "coarsen_cc bx ratio =
     bx\<lparr>smallEnd := map2 (div) (smallEnd bx) ratio, bigEnd := map2 (div) (bigEnd bx) ratio\<rparr>"

definition flat_kernel :: "int \<Rightarrow> intvect kargs \<Rightarrow> farraybox \<Rightarrow> farraybox" where
  "flat_kernel n ka f = f\<lparr>fdata := (\<lambda>p c. fdata f p c + k_q ka * of_int (k_np_to_deposit ka))\<rparr>"

definition ex_collab :: "intvect collab" where
  "ex_collab = \<lparr>numParticlesOutOfRange = count_out_of_range, coarsen = coarsen_cc,
                 doChargeDepositionShapeN = flat_kernel\<rparr>"

definition cpu3d :: build where
  "cpu3d = \<lparr>dim = WARPX_DIM_3D, AMREX_USE_GPU = False\<rparr>"

definition gpu3d :: build where
  "gpu3d = \<lparr>dim = WARPX_DIM_3D, AMREX_USE_GPU = True\<rparr>"

text \<open>
  A nodal charge density with two guard cells over the 8 x 8 x 8 tile of level 1, a stale
  scratch buffer, and the call with every optional argument defaulted.
\<close>

definition ex_tilebox :: box where
  "ex_tilebox = \<lparr>smallEnd = [0, 0, 0], bigEnd = [7, 7, 7], btype = [0, 0, 0]\<rparr>"

definition ex_pti :: "intvect list \<Rightarrow> intvect pariter" where
  "ex_pti ps = \<lparr>particles = ps, GetLevel = 1, tilebox = ex_tilebox\<rparr>"

definition ex_rho :: multifab where
  "ex_rho = \<lparr>nGrowVect = [2, 2, 2], ixType = [1, 1, 1],
              fab = \<lparr>fbox = \<lparr>smallEnd = [-2, -2, -2], bigEnd = [10, 10, 10], btype = [1, 1, 1]\<rparr>,
                      ncomp = 1, fdata = (\<lambda>p c. 5)\<rparr>\<rparr>"

definition ex_state :: dstate where
  "ex_state = \<lparr>rho = ex_rho,
                local_rho = \<lparr>fbox = \<lparr>smallEnd = [0, 0, 0], bigEnd = [0, 0, 0], btype = [0, 0, 0]\<rparr>,
                             ncomp = 1, fdata = (\<lambda>p c. 7)\<rparr>\<rparr>"

definition ex_args :: args where
  "ex_args = \<lparr>wp = [1, 1], charge = 1, ion_lev = None, particle_shape = 1,
               dx = (1, 1, 1), xyzmin = (0, 0, 0), n_rz_azimuthal_modes = 0,
               num_rho_deposition_guards = None, depos_lev = None, rel_ref_ratio = None,
               offset = 0, np_to_deposit = None, icomp = 0, nc = 1\<rparr>"

definition ex_kargs :: "intvect kargs" where
  "ex_kargs = \<lparr>k_GetPosition = ([[3, 3, 3]], 0), k_wp = ([1], 0), k_ion_lev = None,
                k_np_to_deposit = 1, k_dx = (1, 1, 1), k_xyzmin = (0, 0, 0),
                k_lo = (-2, -2, -2), k_q = 1, k_n_rz_azimuthal_modes = 0\<rparr>"

subsection \<open>Shape factors\<close>

text \<open>
  Modelled from the spec: the shape-function library, which the deposition kernels call
  and whose code is not embedded here. Given the fractional distance \<open>xint\<close> between the particle and a
  grid node, in cells, and an order \<open>n\<close> in \<open>{1, 2, 3, 4}\<close>, it produces the \<open>n + 1\<close>
  weights of the B-spline kernel on the nodes of the stencil, lowest node first. The
  specification calls order 1 linear and order 2 quadratic and gives their values at a
  centred particle, so order \<open>n\<close> is the kernel of polynomial degree \<open>n\<close>. Weights are
  real numbers; rounding is not modelled.
\<close>

definition shape_factor :: "int \<Rightarrow> real \<Rightarrow> real list" where
  "shape_factor n xint =
     (if n = 1 then [1 - xint, xint]
      else if n = 2 then
        [1/2 * (1/2 - xint)^2, 3/4 - xint^2, 1/2 * (1/2 + xint)^2]
      else if n = 3 then
        [1/6 * (1 - xint)^3, 2/3 - xint^2 * (1 - xint/2),
         2/3 - (1 - xint)^2 * (1 - (1 - xint)/2), 1/6 * xint^3]
      else if n = 4 then
        [1/24 * (1/2 - xint)^4,
         1/24 * (19/4 - 11 * xint + 4 * xint^2 * (3/2 + xint - xint^2)),
         1/24 * (115/8 + 6 * xint^2 * (xint^2 - 5/2)),
         1/24 * (19/4 + 11 * xint + 4 * xint^2 * (3/2 - xint - xint^2)),
         1/24 * (1/2 + xint)^4]
      else [])"

text \<open>
  Modelled from the spec: the fractional offsets within a cell. For the even orders the
  distance is taken from the nearest node, for the odd orders from the node below the
  particle.
\<close>

definition in_cell :: "int \<Rightarrow> real \<Rightarrow> bool" where
  "in_cell n xint = (if even n then - (1/2) \<le> xint \<and> xint \<le> 1/2 else 0 \<le> xint \<and> xint \<le> 1)"

section \<open>Properties\<close>

subsection \<open>Auxiliary facts\<close>

lemma sdiv_orders:
  "(1::int) sdiv 2 = 0" "(2::int) sdiv 2 = 1" "(3::int) sdiv 2 = 1" "(4::int) sdiv 2 = 2"
  by (simp_all add: signed_divide_int_def)

lemma long_wrap_id: "- (2 ^ 63) \<le> k \<Longrightarrow> k < 2 ^ 63 \<Longrightarrow> long_wrap k = k"
  by (simp add: long_wrap_def)

lemma long_wrap_le: "0 \<le> k \<Longrightarrow> long_wrap k \<le> k"
proof -
  assume "0 \<le> k"
  then have "(k + 2 ^ 63) mod 2 ^ 64 \<le> k + 2 ^ 63"
    by (intro zmod_le_nonneg_dividend) simp
  then show ?thesis by (simp add: long_wrap_def)
qed

lemma shape_extent_orders:
  assumes "n \<in> {1, 2, 3, 4}"
  shows "shape_extent d n n n = replicate (spacedim d) (n div 2 + 1)"
  using assms by (cases d) (auto simp: shape_extent_def sdiv_orders numeral_eq_Suc)

lemma allLE_refl: "allLE v v"
  by (simp add: allLE_def list_all2_same)

lemma allLE_nth:
  "allLE v w \<longleftrightarrow> length v = length w \<and> (\<forall>i<length v. v ! i \<le> w ! i)"
  by (simp add: allLE_def list_all2_conv_all_nth)

lemma resolve_args_Inl_cases:
  "resolve_args b a rh pti = Inl e \<longleftrightarrow>
     (e = Guards_larger_than_allocated \<and> \<not> allLE (ng_rho_of a rh) (nGrowVect rh)) \<or>
     (e = Count_out_of_bounds \<and> allLE (ng_rho_of a rh) (nGrowVect rh) \<and>
        numParticles pti < long_wrap (np_to_deposit_of a pti + offset a)) \<or>
     (e = Bad_deposition_level \<and> allLE (ng_rho_of a rh) (nGrowVect rh) \<and>
        long_wrap (np_to_deposit_of a pti + offset a) \<le> numParticles pti \<and>
        depos_lev_of a pti \<noteq> GetLevel pti - 1 \<and> depos_lev_of a pti \<noteq> GetLevel pti) \<or>
     (e = Missing_ref_ratio \<and> allLE (ng_rho_of a rh) (nGrowVect rh) \<and>
        long_wrap (np_to_deposit_of a pti + offset a) \<le> numParticles pti \<and>
        depos_lev_of a pti = GetLevel pti - 1 \<and> rel_ref_ratio a = None)"
  by (auto simp: resolve_args_def Let_def split: option.splits)

lemma resolve_args_Inr_iff:
  "resolve_args b a rh pti = Inr r \<longleftrightarrow>
     allLE (ng_rho_of a rh) (nGrowVect rh) \<and>
     long_wrap (np_to_deposit_of a pti + offset a) \<le> numParticles pti \<and>
     (depos_lev_of a pti = GetLevel pti - 1 \<or> depos_lev_of a pti = GetLevel pti) \<and>
     (rel_ref_ratio a = None \<longrightarrow> depos_lev_of a pti = GetLevel pti) \<and>
     r = \<lparr>r_ng_rho = ng_rho_of a rh, r_np_to_deposit = np_to_deposit_of a pti,
          r_depos_lev = depos_lev_of a pti,
          r_rel_ref_ratio = (case rel_ref_ratio a of None \<Rightarrow> replicate (spacedim (dim b)) 1
                             | Some ratio \<Rightarrow> ratio)\<rparr>"
  by (auto simp: resolve_args_def Let_def split: option.splits)

lemma deposit_charge_Inl:
  "resolve_args b a (rho s) pti = Inl e \<Longrightarrow> deposit_charge b c pti a s = (Aborted e, s)"
  by (simp add: deposit_charge_def)

lemma deposit_charge_Inr:
  "resolve_args b a (rho s) pti = Inr r \<Longrightarrow>
   deposit_charge b c pti a s =
     (if r_np_to_deposit r = 0 then (Returned, s)
      else if numParticlesOutOfRange c pti
                (range_dep b (rho s) (r_ng_rho r)
                   (shape_extent (dim b) (particle_shape a) (particle_shape a) (particle_shape a))) \<noteq> 0
           then (Aborted Shape_does_not_fit, s)
           else (Returned,
                 scatter b c (particles pti) a r
                   (if GetLevel pti = r_depos_lev r then tilebox pti
                    else coarsen c (tilebox pti) (r_rel_ref_ratio r)) s))"
  by (simp add: deposit_charge_def Let_def)

lemma deposit_charge_aborted_state:
  "fst (deposit_charge b c pti a s) = Aborted e \<Longrightarrow> snd (deposit_charge b c pti a s) = s"
  by (cases "resolve_args b a (rho s) pti")
     (auto simp: deposit_charge_Inl deposit_charge_Inr split: if_splits)


lemma range_dep_eq:
  "range_dep b rh ng ext = iv_minus (if AMREX_USE_GPU b then nGrowVect rh else ng) ext"
  by (simp add: range_dep_def)

lemma lockAdd_zeroed:
  "lockAdd d (setVal (resize l bx n) 0) bx bx 0 k n = d"
proof -
  have "fdata (lockAdd d (setVal (resize l bx n) 0) bx bx 0 k n) p c = fdata d p c" for p c
  proof (cases "contains bx p \<and> k \<le> c \<and> c < k + n")
    case True
    then have len: "length (smallEnd bx) = length p"
      by (auto simp: contains_def allLE_def dest: list_all2_lengthD)
    have "iv_plus p (iv_minus (smallEnd bx) (smallEnd bx)) = p"
      using len
      by (auto simp: iv_plus_def iv_minus_def intro!: nth_equalityI)
    with True show ?thesis
      by (simp add: lockAdd_def setVal_def resize_def)
  next
    case False
    then show ?thesis by (auto simp: lockAdd_def)
  qed
  then have "fdata (lockAdd d (setVal (resize l bx n) 0) bx bx 0 k n) = fdata d"
    by (intro ext)
  moreover have "lockAdd d (setVal (resize l bx n) 0) bx bx 0 k n
                 = d\<lparr>fdata := fdata (lockAdd d (setVal (resize l bx n) 0) bx bx 0 k n)\<rparr>"
    by (simp add: lockAdd_def)
  ultimately show ?thesis by simp
qed

lemma dispatch_None: "n \<notin> {1, 2, 3, 4} \<Longrightarrow> dispatch c n ka f = None"
  by (simp add: dispatch_def)

lemma dispatch_Some: "n \<in> {1, 2, 3, 4} \<Longrightarrow> dispatch c n ka f = Some (doChargeDepositionShapeN c n ka f)"
  by (auto simp: dispatch_def)

lemma scatter_unsupported_rho:
  "particle_shape a \<notin> {1, 2, 3, 4} \<Longrightarrow> rho (scatter b c ps a r tbx s) = rho s"
  by (simp add: scatter_def Let_def dispatch_None lockAdd_zeroed)

lemmas model_defs =
  resolve_args_def ng_rho_of_def np_to_deposit_of_def depos_lev_of_def numParticles_def
  shape_extent_def range_dep_def allLE_def iv_minus_def iv_plus_def grow_def contains_def
  signed_divide_int_def long_wrap_def Let_def

lemmas example_defs =
  ex_collab_def count_out_of_range_def coarsen_cc_def flat_kernel_def cpu3d_def
  ex_tilebox_def ex_pti_def ex_rho_def ex_state_def ex_args_def

lemma requiredGuard_spec_1: "requiredGuard_spec 1 = 2"
proof -
  have "\<lceil>(1::real) / 2\<rceil> = 1" by (simp add: ceiling_eq_iff)
  then show ?thesis by (simp add: requiredGuard_spec_def)
qed

lemma ex_resolve_default:
  "resolve_args cpu3d ex_args (rho ex_state) (ex_pti [[3, 3, 3]]) =
     Inr \<lparr>r_ng_rho = [2, 2, 2], r_np_to_deposit = 1, r_depos_lev = 1,
          r_rel_ref_ratio = [1, 1, 1]\<rparr>"
  by (simp add: model_defs example_defs numeral_eq_Suc)

lemma shape_factor_length: "n \<in> {1, 2, 3, 4} \<Longrightarrow> length (shape_factor n x) = nat (n + 1)"
  by (auto simp: shape_factor_def)

lemma cubic_weights_sum:
  fixes x :: real
  shows "1/6 * (1 - x)^3 + (2/3 - x^2 * (1 - x/2)) + (2/3 - (1 - x)^2 * (1 - (1 - x)/2)) + 1/6 * x^3 = 1"
  by (simp add: power2_eq_square power3_eq_cube field_simps)

lemma quartic_weights_sum:
  fixes x :: real
  shows "1/24 * (1/2 - x)^4 + 1/24 * (19/4 - 11 * x + 4 * x^2 * (3/2 + x - x^2))
         + 1/24 * (115/8 + 6 * x^2 * (x^2 - 5/2))
         + 1/24 * (19/4 + 11 * x + 4 * x^2 * (3/2 - x - x^2)) + 1/24 * (1/2 + x)^4 = 1"
  by (simp add: power2_eq_square power4_eq_xxxx field_simps)

lemma quadratic_weights_sum:
  fixes x :: real
  shows "1/2 * (1/2 - x)^2 + (3/4 - x^2) + 1/2 * (1/2 + x)^2 = 1"
  by (simp add: power2_eq_square field_simps)

lemma shape_factor_sum: "n \<in> {1, 2, 3, 4} \<Longrightarrow> sum_list (shape_factor n x) = 1"
  using quadratic_weights_sum [of x] cubic_weights_sum [of x] quartic_weights_sum [of x]
  by (auto simp: shape_factor_def simp del: distrib_left_numeral)

lemma cubic_mid_nonneg:
  fixes x :: real
  assumes "0 \<le> x" "x \<le> 1"
  shows "0 \<le> 2/3 - x^2 * (1 - x/2)"
proof -
  have "x^2 \<le> x" using assms by (simp add: power2_eq_square mult_left_le_one_le)
  moreover have "0 \<le> 1 - x/2" using assms by simp
  ultimately have "x^2 * (1 - x/2) \<le> x * (1 - x/2)"
    by (rule mult_right_mono)
  also have "x * (1 - x/2) = 1/2 - (1 - x)^2 / 2"
    by (simp add: power2_eq_square field_simps)
  also have "\<dots> \<le> 1/2" by simp
  finally show ?thesis by simp
qed

lemma quartic_side_nonneg:
  fixes u :: real
  assumes "0 \<le> u" "u \<le> 1"
  shows "0 \<le> 1 + 4 * u + 6 * u^2 + 4 * u^3 * (1 - u)"
proof -
  have "0 \<le> 4 * u^3 * (1 - u)" using assms by simp
  moreover have "0 \<le> 4 * u" "0 \<le> 6 * u^2" using assms by simp_all
  ultimately show ?thesis by linarith
qed

lemma quartic_side_left:
  fixes x :: real
  shows "19/4 - 11 * x + 4 * x^2 * (3/2 + x - x^2)
         = 1 + 4 * (1/2 - x) + 6 * (1/2 - x)^2 + 4 * (1/2 - x)^3 * (1 - (1/2 - x))"
  by (simp add: power2_eq_square power3_eq_cube field_simps)

lemma quartic_side_right:
  fixes x :: real
  shows "19/4 + 11 * x + 4 * x^2 * (3/2 - x - x^2)
         = 1 + 4 * (1/2 + x) + 6 * (1/2 + x)^2 + 4 * (1/2 + x)^3 * (1 - (1/2 + x))"
  by (simp add: power2_eq_square power3_eq_cube field_simps)

lemma quartic_mid_nonneg:
  fixes x :: real
  assumes "- (1/2) \<le> x" "x \<le> 1/2"
  shows "0 \<le> 115/8 + 6 * x^2 * (x^2 - 5/2)"
proof -
  have "0 \<le> (1/2 - x) * (1/2 + x)" using assms by simp
  then have sq: "x^2 \<le> 1/4" by (simp add: power2_eq_square algebra_simps)
  have "115/8 + 6 * x^2 * (x^2 - 5/2) = 115/8 - 15 * x^2 + 6 * (x^2)^2"
    by (simp add: power2_eq_square algebra_simps)
  moreover have "0 \<le> 6 * (x^2)^2" by simp
  ultimately show ?thesis using sq by linarith
qed

lemma shape_factor_nonneg:
  assumes "n \<in> {1, 2, 3, 4}" "in_cell n x"
  shows "\<forall>w \<in> set (shape_factor n x). 0 \<le> w"
proof -
  consider "n = 1" | "n = 2" | "n = 3" | "n = 4" using assms(1) by auto
  then show ?thesis
  proof cases
    case 1
    with assms(2) show ?thesis by (simp add: shape_factor_def in_cell_def)
  next
    case 2
    with assms(2) have r: "- (1/2) \<le> x" "x \<le> 1/2" by (simp_all add: in_cell_def)
    then have "0 \<le> (1/2 - x) * (1/2 + x)" by simp
    then have "x^2 \<le> 1/4" by (simp add: power2_eq_square algebra_simps)
    with 2 show ?thesis by (simp add: shape_factor_def)
  next
    case 3
    with assms(2) have r: "0 \<le> x" "x \<le> 1" by (simp_all add: in_cell_def)
    then have r': "0 \<le> 1 - x" "1 - x \<le> 1" by simp_all
    from cubic_mid_nonneg [OF r] cubic_mid_nonneg [OF r'] r 3 show ?thesis
      by (simp add: shape_factor_def)
  next
    case 4
    with assms(2) have r: "- (1/2) \<le> x" "x \<le> 1/2" by (simp_all add: in_cell_def)
    then have u: "0 \<le> 1/2 - x" "1/2 - x \<le> 1" "0 \<le> 1/2 + x" "1/2 + x \<le> 1" by simp_all
    have a: "0 \<le> 19/4 - 11 * x + 4 * x^2 * (3/2 + x - x^2)"
      unfolding quartic_side_left using quartic_side_nonneg [OF u(1,2)] .
    have b: "0 \<le> 19/4 + 11 * x + 4 * x^2 * (3/2 - x - x^2)"
      unfolding quartic_side_right using quartic_side_nonneg [OF u(3,4)] .
    from a b quartic_mid_nonneg [OF r] 4 show ?thesis
      by (simp add: shape_factor_def)
  qed
qed

lemma shape_factor_on_node:
  "shape_factor 1 0 = [1, 0]"
  "shape_factor 2 0 = [1/8, 3/4, 1/8]"
  "shape_factor 3 0 = [1/6, 2/3, 1/6, 0]"
  "shape_factor 4 0 = [1/384, 19/96, 115/192, 19/96, 1/384]"
  by (simp_all add: shape_factor_def power2_eq_square power3_eq_cube power4_eq_xxxx)

lemma shape_factor_linear_centre: "shape_factor 1 (1/2) = [1/2, 1/2]"
  by (simp add: shape_factor_def)

lemma sum_list_nonzero: "sum_list (filter (\<lambda>w. w \<noteq> 0) ws) = sum_list (ws :: real list)"
  by (induction ws) simp_all

subsection \<open>The guard extent (claim C1)\<close>

text \<open>
  Claim C1, as stated, at shape order 1 in three dimensions: the source computes an extent
  of 1 cell per direction where \<open>ceil(order/2) + 1\<close> is 2.
\<close>

theorem guard_extent_not_ceiling:
  "shape_extent WARPX_DIM_3D 1 1 1 = [1, 1, 1] \<and>
   replicate (spacedim WARPX_DIM_3D) (requiredGuard_spec 1) = [2, 2, 2]"
  by (simp add: shape_extent_def sdiv_orders requiredGuard_spec_1 numeral_eq_Suc)

text \<open>
  Claim C1, amended: for every shape order \<open>n\<close> in \<open>{1, 2, 3, 4}\<close> the extent the deposition
  requires per dimension is \<open>n div 2 + 1\<close> cells, the integer division rounding down (1 cell
  for order 1, 2 cells for orders 2 and 3, 3 cells for order 4); and this extent is the one
  subtracted from the available guard width (\<open>ng_rho\<close> on the CPU path, the allocated guard
  cells of \<open>rho\<close> on the GPU path) in the check that the particles fit: once the arguments
  have passed their checks and there is something to deposit, the call aborts with the
  message of that check exactly when a particle is out of the range so computed.
\<close>

theorem guard_extent_floor:
  assumes "n \<in> {1, 2, 3, 4}" and "particle_shape a = n"
    and "resolve_args b a (rho s) pti = Inr r" and "r_np_to_deposit r \<noteq> 0"
  shows "shape_extent (dim b) n n n = replicate (spacedim (dim b)) (n div 2 + 1) \<and>
         n div 2 + 1 = (if n = 1 then 1 else if n = 4 then 3 else 2) \<and>
         (fst (deposit_charge b c pti a s) = Aborted Shape_does_not_fit \<longleftrightarrow>
            numParticlesOutOfRange c pti
              (iv_minus (if AMREX_USE_GPU b then nGrowVect (rho s) else r_ng_rho r)
                 (replicate (spacedim (dim b)) (n div 2 + 1))) \<noteq> 0)"
proof (intro conjI)
  show ext: "shape_extent (dim b) n n n = replicate (spacedim (dim b)) (n div 2 + 1)"
    using assms(1) by (rule shape_extent_orders)
  show "n div 2 + 1 = (if n = 1 then 1 else if n = 4 then 3 else 2)"
    using assms(1) by auto
  show "fst (deposit_charge b c pti a s) = Aborted Shape_does_not_fit \<longleftrightarrow>
            numParticlesOutOfRange c pti
              (iv_minus (if AMREX_USE_GPU b then nGrowVect (rho s) else r_ng_rho r)
                 (replicate (spacedim (dim b)) (n div 2 + 1))) \<noteq> 0"
    using assms(2-4) ext by (simp add: deposit_charge_Inr range_dep_eq)
qed

text \<open>
  Order 3 on the CPU path with two guard cells: the extent is 2, the range 0, and a
  particle in cell 9 of a tile ending at cell 7 makes the call abort.
\<close>

theorem guard_extent_floor_witness:
  "(3::int) \<in> {1, 2, 3, 4} \<and>
   shape_extent (dim cpu3d) 3 3 3 = [2, 2, 2] \<and>
   numParticlesOutOfRange ex_collab (ex_pti [[3, 3, 3], [9, 3, 3]]) [0, 0, 0] = 1 \<and>
   fst (deposit_charge cpu3d ex_collab (ex_pti [[3, 3, 3], [9, 3, 3]])
          (ex_args\<lparr>particle_shape := 3\<rparr>) ex_state) = Aborted Shape_does_not_fit"
proof -
  let ?a = "ex_args\<lparr>particle_shape := 3\<rparr>"
  let ?pti = "ex_pti [[3, 3, 3], [9, 3, 3]]"
  let ?r = "\<lparr>r_ng_rho = [2, 2, 2], r_np_to_deposit = 2, r_depos_lev = 1,
             r_rel_ref_ratio = [1, 1, 1]\<rparr>"
  have h1: "(3::int) \<in> {1, 2, 3, 4}" by simp
  have h2: "particle_shape ?a = 3" by (simp add: ex_args_def)
  have h3: "resolve_args cpu3d ?a (rho ex_state) ?pti = Inr ?r"
    by (simp add: model_defs example_defs numeral_eq_Suc)
  have h4: "r_np_to_deposit ?r \<noteq> 0" by simp
  have oor: "numParticlesOutOfRange ex_collab ?pti [0, 0, 0] = 1"
    by (simp add: model_defs example_defs)
  from guard_extent_floor [OF h1 h2 h3 h4, of ex_collab] oor h1 show ?thesis
    by (simp add: cpu3d_def ex_state_def ex_rho_def numeral_eq_Suc iv_minus_def)
qed

subsection \<open>The bounds check (claim C2)\<close>

text \<open>
  Claim C2: the check that the particles fit runs before any scatter. If the out-of-range
  count is not zero for the margin of the path in use (\<open>ng_rho\<close>, the guard width of the
  tile buffer, less the shape extent on the CPU path; the allocated guard width of \<open>rho\<close>
  less the shape extent on the GPU path), then no field is written at all, so no write
  lands out of bounds; and whenever there is something to deposit the call aborts: with
  the message of this check once the arguments have passed theirs, with the message of an
  earlier check otherwise. The count ranges over all particles of the iterator.
\<close>

theorem out_of_range_aborts_before_scatter:
  assumes "numParticlesOutOfRange c pti
             (iv_minus (if AMREX_USE_GPU b then nGrowVect (rho s) else ng_rho_of a (rho s))
                (shape_extent (dim b) (particle_shape a) (particle_shape a) (particle_shape a))) \<noteq> 0"
  shows "snd (deposit_charge b c pti a s) = s \<and>
         (np_to_deposit_of a pti \<noteq> 0 \<longrightarrow> (\<exists>e. fst (deposit_charge b c pti a s) = Aborted e)) \<and>
         (np_to_deposit_of a pti \<noteq> 0 \<and> resolve_args b a (rho s) pti = Inr r \<longrightarrow>
            fst (deposit_charge b c pti a s) = Aborted Shape_does_not_fit)"
proof (cases "resolve_args b a (rho s) pti")
  case (Inl e)
  then show ?thesis by (simp add: deposit_charge_Inl)
next
  case (Inr r')
  then have "r_ng_rho r' = ng_rho_of a (rho s)" "r_np_to_deposit r' = np_to_deposit_of a pti"
    by (simp_all add: resolve_args_Inr_iff)
  with assms show ?thesis
    by (auto simp: deposit_charge_Inr [OF Inr] range_dep_eq)
qed

text \<open>Order 1 on the CPU path: the margin is 1, and a particle in cell 9 is out of range.\<close>

theorem out_of_range_aborts_before_scatter_witness:
  "numParticlesOutOfRange ex_collab (ex_pti [[3, 3, 3], [9, 3, 3]]) [1, 1, 1] = 1 \<and>
   np_to_deposit_of ex_args (ex_pti [[3, 3, 3], [9, 3, 3]]) = 2 \<and>
   fst (deposit_charge cpu3d ex_collab (ex_pti [[3, 3, 3], [9, 3, 3]]) ex_args ex_state)
     = Aborted Shape_does_not_fit \<and>
   snd (deposit_charge cpu3d ex_collab (ex_pti [[3, 3, 3], [9, 3, 3]]) ex_args ex_state)
     = ex_state"
proof -
  let ?pti = "ex_pti [[3, 3, 3], [9, 3, 3]]"
  let ?r = "\<lparr>r_ng_rho = [2, 2, 2], r_np_to_deposit = 2, r_depos_lev = 1,
             r_rel_ref_ratio = [1, 1, 1]\<rparr>"
  have ext: "iv_minus (if AMREX_USE_GPU cpu3d then nGrowVect (rho ex_state)
                       else ng_rho_of ex_args (rho ex_state))
               (shape_extent (dim cpu3d) (particle_shape ex_args) (particle_shape ex_args)
                  (particle_shape ex_args)) = [1, 1, 1]"
    by (simp add: model_defs example_defs)
  have oor: "numParticlesOutOfRange ex_collab ?pti [1, 1, 1] = 1"
    by (simp add: model_defs example_defs)
  have np: "np_to_deposit_of ex_args ?pti = 2"
    by (simp add: model_defs example_defs)
  have res: "resolve_args cpu3d ex_args (rho ex_state) ?pti = Inr ?r"
    by (simp add: model_defs example_defs numeral_eq_Suc)
  have hyp: "numParticlesOutOfRange ex_collab ?pti
               (iv_minus (if AMREX_USE_GPU cpu3d then nGrowVect (rho ex_state)
                          else ng_rho_of ex_args (rho ex_state))
                  (shape_extent (dim cpu3d) (particle_shape ex_args) (particle_shape ex_args)
                     (particle_shape ex_args))) \<noteq> 0"
    unfolding ext oor by simp
  from out_of_range_aborts_before_scatter [OF hyp, of ?r] oor np res show ?thesis
    by simp
qed

subsection \<open>Atomicity (claim C3)\<close>

text \<open>
  Claim C3, as stated, at shape order 5 on the CPU path: one particle of weight 1 and
  charge 1 is to be deposited, every check passes, the call returns, and the charge density
  is what it was: the batch has not been deposited and the call has not aborted.
\<close>

theorem order_5_returns_without_deposit:
  "np_to_deposit_of (ex_args\<lparr>particle_shape := 5\<rparr>) (ex_pti [[3, 3, 3]]) = 1 \<and>
   fst (deposit_charge cpu3d ex_collab (ex_pti [[3, 3, 3]]) (ex_args\<lparr>particle_shape := 5\<rparr>)
          ex_state) = Returned \<and>
   rho (snd (deposit_charge cpu3d ex_collab (ex_pti [[3, 3, 3]]) (ex_args\<lparr>particle_shape := 5\<rparr>)
               ex_state)) = rho ex_state"
proof -
  let ?pti = "ex_pti [[3, 3, 3]]"
  let ?a = "ex_args\<lparr>particle_shape := 5\<rparr>"
  let ?r = "\<lparr>r_ng_rho = [2, 2, 2], r_np_to_deposit = 1, r_depos_lev = 1,
             r_rel_ref_ratio = [1, 1, 1]\<rparr>"
  have np: "np_to_deposit_of ?a ?pti = 1"
    by (simp add: model_defs example_defs)
  have res: "resolve_args cpu3d ?a (rho ex_state) ?pti = Inr ?r"
    by (simp add: model_defs example_defs numeral_eq_Suc)
  have oor: "numParticlesOutOfRange ex_collab ?pti
               (range_dep cpu3d (rho ex_state) (r_ng_rho ?r)
                  (shape_extent (dim cpu3d) (particle_shape ?a) (particle_shape ?a)
                     (particle_shape ?a))) = 0"
    by (simp add: model_defs example_defs)
  have sh: "particle_shape ?a \<notin> {1, 2, 3, 4}" by simp
  from oor have "deposit_charge cpu3d ex_collab ?pti ?a ex_state =
      (Returned, scatter cpu3d ex_collab (particles ?pti) ?a ?r
                   (if GetLevel ?pti = r_depos_lev ?r then tilebox ?pti
                    else coarsen ex_collab (tilebox ?pti) (r_rel_ref_ratio ?r)) ex_state)"
    by (simp add: deposit_charge_Inr [OF res])
  with np show ?thesis by (simp add: scatter_unsupported_rho [OF sh])
qed

text \<open>
  Claim C3, amended: every call with a shape order in \<open>{1, 2, 3, 4}\<close> is all or nothing.
  A call that aborts has written nothing, whatever the order: the state at the abort is the
  state at entry, and the call aborts exactly when one of the five checks fails (guard
  override, offset plus count as the code sums them, target level, presence of the
  refinement ratio, and, when there is something to deposit, the out-of-range count), all
  of which come before the first write. A call with a supported order that returns has
  deposited the whole batch: with a count of zero nothing is written, and otherwise the
  kernel of that order has run once, on all \<open>np_to_deposit\<close> particles from \<open>offset\<close> with
  the lower corner of the grown tile box, on the GPU path into the component range of the
  charge density, on the CPU path into the zeroed scratch buffer that is then added to the
  charge density.
\<close>

theorem deposit_is_all_or_nothing:
  "(fst (deposit_charge b c pti a s) = Aborted e \<longrightarrow> snd (deposit_charge b c pti a s) = s) \<and>
   ((\<exists>e'. fst (deposit_charge b c pti a s) = Aborted e') \<longleftrightarrow>
      \<not> allLE (ng_rho_of a (rho s)) (nGrowVect (rho s)) \<or>
      numParticles pti < long_wrap (np_to_deposit_of a pti + offset a) \<or>
      (depos_lev_of a pti \<noteq> GetLevel pti - 1 \<and> depos_lev_of a pti \<noteq> GetLevel pti) \<or>
      (rel_ref_ratio a = None \<and> depos_lev_of a pti \<noteq> GetLevel pti) \<or>
      (np_to_deposit_of a pti \<noteq> 0 \<and>
       numParticlesOutOfRange c pti
         (range_dep b (rho s) (ng_rho_of a (rho s))
            (shape_extent (dim b) (particle_shape a) (particle_shape a) (particle_shape a))) \<noteq> 0)) \<and>
   (particle_shape a \<in> {1, 2, 3, 4} \<and> fst (deposit_charge b c pti a s) = Returned \<longrightarrow>
      snd (deposit_charge b c pti a s) =
        (if np_to_deposit_of a pti = 0 then s
         else
           let ng = ng_rho_of a (rho s);
               tbx = (if depos_lev_of a pti = GetLevel pti then tilebox pti
                      else coarsen c (tilebox pti)
                             (case rel_ref_ratio a of
                                None \<Rightarrow> replicate (spacedim (dim b)) 1 | Some ratio \<Rightarrow> ratio));
               ka = \<lparr>k_GetPosition = (particles pti, offset a), k_wp = (wp a, offset a),
                     k_ion_lev = ion_lev a, k_np_to_deposit = np_to_deposit_of a pti,
                     k_dx = dx a, k_xyzmin = xyzmin a, k_lo = lbound (grow tbx ng),
                     k_q = charge a, k_n_rz_azimuthal_modes = n_rz_azimuthal_modes a\<rparr>;
               tb = grow (convert tbx (ixType (rho s))) ng;
               sc = icomp a * nc a
           in if AMREX_USE_GPU b then
                s\<lparr>rho := (rho s)\<lparr>fab :=
                    alias_store (fab (rho s)) sc (nc a)
                      (doChargeDepositionShapeN c (particle_shape a) ka
                         (alias_view (fab (rho s)) sc (nc a)))\<rparr>\<rparr>
              else
                s\<lparr>rho := (rho s)\<lparr>fab :=
                    lockAdd (fab (rho s))
                      (doChargeDepositionShapeN c (particle_shape a) ka
                         (setVal (resize (local_rho s) tb (nc a)) 0))
                      tb tb 0 sc (nc a)\<rparr>,
                  local_rho :=
                    doChargeDepositionShapeN c (particle_shape a) ka
                      (setVal (resize (local_rho s) tb (nc a)) 0)\<rparr>))"
proof (intro conjI)
  show "fst (deposit_charge b c pti a s) = Aborted e \<longrightarrow> snd (deposit_charge b c pti a s) = s"
    by (simp add: deposit_charge_aborted_state)
next
  show "(\<exists>e'. fst (deposit_charge b c pti a s) = Aborted e') \<longleftrightarrow>
      \<not> allLE (ng_rho_of a (rho s)) (nGrowVect (rho s)) \<or>
      numParticles pti < long_wrap (np_to_deposit_of a pti + offset a) \<or>
      (depos_lev_of a pti \<noteq> GetLevel pti - 1 \<and> depos_lev_of a pti \<noteq> GetLevel pti) \<or>
      (rel_ref_ratio a = None \<and> depos_lev_of a pti \<noteq> GetLevel pti) \<or>
      (np_to_deposit_of a pti \<noteq> 0 \<and>
       numParticlesOutOfRange c pti
         (range_dep b (rho s) (ng_rho_of a (rho s))
            (shape_extent (dim b) (particle_shape a) (particle_shape a) (particle_shape a))) \<noteq> 0)"
  proof (cases "resolve_args b a (rho s) pti")
    case (Inl e0)
    then have "fst (deposit_charge b c pti a s) = Aborted e0"
      by (simp add: deposit_charge_Inl)
    moreover from Inl have
      "\<not> allLE (ng_rho_of a (rho s)) (nGrowVect (rho s)) \<or>
       numParticles pti < long_wrap (np_to_deposit_of a pti + offset a) \<or>
       (depos_lev_of a pti \<noteq> GetLevel pti - 1 \<and> depos_lev_of a pti \<noteq> GetLevel pti) \<or>
       (rel_ref_ratio a = None \<and> depos_lev_of a pti \<noteq> GetLevel pti)"
      unfolding resolve_args_Inl_cases by auto
    ultimately show ?thesis by blast
  next
    case (Inr r)
    then show ?thesis
      using Inr unfolding resolve_args_Inr_iff
      by (auto simp: deposit_charge_Inr [OF Inr])
  qed
next
  show "particle_shape a \<in> {1, 2, 3, 4} \<and> fst (deposit_charge b c pti a s) = Returned \<longrightarrow>
      snd (deposit_charge b c pti a s) =
        (if np_to_deposit_of a pti = 0 then s
         else
           let ng = ng_rho_of a (rho s);
               tbx = (if depos_lev_of a pti = GetLevel pti then tilebox pti
                      else coarsen c (tilebox pti)
                             (case rel_ref_ratio a of
                                None \<Rightarrow> replicate (spacedim (dim b)) 1 | Some ratio \<Rightarrow> ratio));
               ka = \<lparr>k_GetPosition = (particles pti, offset a), k_wp = (wp a, offset a),
                     k_ion_lev = ion_lev a, k_np_to_deposit = np_to_deposit_of a pti,
                     k_dx = dx a, k_xyzmin = xyzmin a, k_lo = lbound (grow tbx ng),
                     k_q = charge a, k_n_rz_azimuthal_modes = n_rz_azimuthal_modes a\<rparr>;
               tb = grow (convert tbx (ixType (rho s))) ng;
               sc = icomp a * nc a
           in if AMREX_USE_GPU b then
                s\<lparr>rho := (rho s)\<lparr>fab :=
                    alias_store (fab (rho s)) sc (nc a)
                      (doChargeDepositionShapeN c (particle_shape a) ka
                         (alias_view (fab (rho s)) sc (nc a)))\<rparr>\<rparr>
              else
                s\<lparr>rho := (rho s)\<lparr>fab :=
                    lockAdd (fab (rho s))
                      (doChargeDepositionShapeN c (particle_shape a) ka
                         (setVal (resize (local_rho s) tb (nc a)) 0))
                      tb tb 0 sc (nc a)\<rparr>,
                  local_rho :=
                    doChargeDepositionShapeN c (particle_shape a) ka
                      (setVal (resize (local_rho s) tb (nc a)) 0)\<rparr>)"
  proof (cases "resolve_args b a (rho s) pti")
    case (Inl e0)
    then show ?thesis by (simp add: deposit_charge_Inl)
  next
    case (Inr r)
    then have r: "r = \<lparr>r_ng_rho = ng_rho_of a (rho s), r_np_to_deposit = np_to_deposit_of a pti,
                       r_depos_lev = depos_lev_of a pti,
                       r_rel_ref_ratio = (case rel_ref_ratio a of
                                            None \<Rightarrow> replicate (spacedim (dim b)) 1
                                          | Some ratio \<Rightarrow> ratio)\<rparr>"
      by (simp add: resolve_args_Inr_iff)
    show ?thesis
    proof (intro impI, elim conjE)
      assume sh: "particle_shape a \<in> {1, 2, 3, 4}"
        and ret: "fst (deposit_charge b c pti a s) = Returned"
      show "snd (deposit_charge b c pti a s) =
        (if np_to_deposit_of a pti = 0 then s
         else
           let ng = ng_rho_of a (rho s);
               tbx = (if depos_lev_of a pti = GetLevel pti then tilebox pti
                      else coarsen c (tilebox pti)
                             (case rel_ref_ratio a of
                                None \<Rightarrow> replicate (spacedim (dim b)) 1 | Some ratio \<Rightarrow> ratio));
               ka = \<lparr>k_GetPosition = (particles pti, offset a), k_wp = (wp a, offset a),
                     k_ion_lev = ion_lev a, k_np_to_deposit = np_to_deposit_of a pti,
                     k_dx = dx a, k_xyzmin = xyzmin a, k_lo = lbound (grow tbx ng),
                     k_q = charge a, k_n_rz_azimuthal_modes = n_rz_azimuthal_modes a\<rparr>;
               tb = grow (convert tbx (ixType (rho s))) ng;
               sc = icomp a * nc a
           in if AMREX_USE_GPU b then
                s\<lparr>rho := (rho s)\<lparr>fab :=
                    alias_store (fab (rho s)) sc (nc a)
                      (doChargeDepositionShapeN c (particle_shape a) ka
                         (alias_view (fab (rho s)) sc (nc a)))\<rparr>\<rparr>
              else
                s\<lparr>rho := (rho s)\<lparr>fab :=
                    lockAdd (fab (rho s))
                      (doChargeDepositionShapeN c (particle_shape a) ka
                         (setVal (resize (local_rho s) tb (nc a)) 0))
                      tb tb 0 sc (nc a)\<rparr>,
                  local_rho :=
                    doChargeDepositionShapeN c (particle_shape a) ka
                      (setVal (resize (local_rho s) tb (nc a)) 0)\<rparr>)"
        using ret
        unfolding deposit_charge_Inr [OF Inr]
        by (simp add: r scatter_def kernel_args_def dispatch_Some [OF sh] Let_def
                 split: if_splits)
    qed
  qed
qed

text \<open>
  A call that aborts for the missing ratio; and the default call at order 1 with one
  particle of charge 1, which returns: the example kernel adds the charge it is given to
  every value, so the charge density at cell 3 goes from 5 to 6 on both paths, and the
  scratch buffer of the CPU path holds 1 there.
\<close>

theorem deposit_is_all_or_nothing_witness:
  "fst (deposit_charge cpu3d ex_collab (ex_pti [[3, 3, 3]]) (ex_args\<lparr>depos_lev := Some 0\<rparr>) ex_state)
     = Aborted Missing_ref_ratio \<and>
   snd (deposit_charge cpu3d ex_collab (ex_pti [[3, 3, 3]]) (ex_args\<lparr>depos_lev := Some 0\<rparr>) ex_state)
     = ex_state \<and>
   fst (deposit_charge cpu3d ex_collab (ex_pti [[3, 3, 3]]) ex_args ex_state) = Returned \<and>
   fdata (fab (rho ex_state)) [3, 3, 3] 0 = 5 \<and>
   fdata (fab (rho (snd (deposit_charge cpu3d ex_collab (ex_pti [[3, 3, 3]]) ex_args ex_state))))
     [3, 3, 3] 0 = 6 \<and>
   fdata (local_rho (snd (deposit_charge cpu3d ex_collab (ex_pti [[3, 3, 3]]) ex_args ex_state)))
     [3, 3, 3] 0 = 1 \<and>
   fst (deposit_charge gpu3d ex_collab (ex_pti [[3, 3, 3]]) ex_args ex_state) = Returned \<and>
   fdata (fab (rho (snd (deposit_charge gpu3d ex_collab (ex_pti [[3, 3, 3]]) ex_args ex_state))))
     [3, 3, 3] 0 = 6"
proof -
  let ?pti = "ex_pti [[3, 3, 3]]"
  let ?a = "ex_args\<lparr>depos_lev := Some 0\<rparr>"
  let ?r = "\<lparr>r_ng_rho = [2, 2, 2], r_np_to_deposit = 1, r_depos_lev = 1,
             r_rel_ref_ratio = [1, 1, 1]\<rparr>"
  have "resolve_args cpu3d ?a (rho ex_state) ?pti = Inl Missing_ref_ratio"
    by (simp add: model_defs example_defs)
  then have ab: "fst (deposit_charge cpu3d ex_collab ?pti ?a ex_state) = Aborted Missing_ref_ratio"
    by (simp add: deposit_charge_Inl)
  have resg: "resolve_args gpu3d ex_args (rho ex_state) ?pti = Inr ?r"
    by (simp add: model_defs example_defs gpu3d_def numeral_eq_Suc)
  have oor: "numParticlesOutOfRange ex_collab ?pti
               (range_dep cpu3d (rho ex_state) [2, 2, 2]
                  (shape_extent (dim cpu3d) (particle_shape ex_args) (particle_shape ex_args)
                     (particle_shape ex_args))) = 0"
            "numParticlesOutOfRange ex_collab ?pti
               (range_dep gpu3d (rho ex_state) [2, 2, 2]
                  (shape_extent (dim gpu3d) (particle_shape ex_args) (particle_shape ex_args)
                     (particle_shape ex_args))) = 0"
    by (simp_all add: model_defs example_defs gpu3d_def)
  have retc: "fst (deposit_charge cpu3d ex_collab ?pti ex_args ex_state) = Returned"
    using oor(1) by (simp add: deposit_charge_Inr [OF ex_resolve_default])
  have retg: "fst (deposit_charge gpu3d ex_collab ?pti ex_args ex_state) = Returned"
    using oor(2) by (simp add: deposit_charge_Inr [OF resg])
  have sh: "particle_shape ex_args \<in> {1, 2, 3, 4}" by (simp add: ex_args_def)
  have np: "np_to_deposit_of ex_args ?pti = 1"
    by (simp add: model_defs example_defs)
  note ta = deposit_is_all_or_nothing [of cpu3d ex_collab ?pti ?a ex_state Missing_ref_ratio]
  note tc = deposit_is_all_or_nothing [of cpu3d ex_collab ?pti ex_args ex_state Missing_ref_ratio]
  note tg = deposit_is_all_or_nothing [of gpu3d ex_collab ?pti ex_args ex_state Missing_ref_ratio]
  from ta ab have A: "snd (deposit_charge cpu3d ex_collab ?pti ?a ex_state) = ex_state"
    by (simp del: fst_conv snd_conv)
  have before: "fdata (fab (rho ex_state)) [3, 3, 3] 0 = 5"
    by (simp add: ex_state_def ex_rho_def)
  from tc sh retc np
  have C: "fdata (fab (rho (snd (deposit_charge cpu3d ex_collab ?pti ex_args ex_state))))
             [3, 3, 3] 0 = 6 \<and>
           fdata (local_rho (snd (deposit_charge cpu3d ex_collab ?pti ex_args ex_state)))
             [3, 3, 3] 0 = 1"
    by (simp add: model_defs example_defs convert_def lockAdd_def setVal_def resize_def
             del: fst_conv snd_conv)
  from tg sh retg np
  have G: "fdata (fab (rho (snd (deposit_charge gpu3d ex_collab ?pti ex_args ex_state))))
             [3, 3, 3] 0 = 6"
    by (simp add: model_defs example_defs gpu3d_def alias_store_def alias_view_def
             del: fst_conv snd_conv)
  from ab A retc before C retg G show ?thesis by simp
qed

subsection \<open>The deposition level (claim C4)\<close>

text \<open>
  Claim C4: a target level other than the owning level and that level minus one makes the
  call abort, and the level check itself fails for no other target level; a target level
  that differs from the owning level without a refinement ratio makes the call abort; when
  no target level is supplied the owning level is used, with the ratio 1 in every
  dimension unless the caller supplied one. The two equivalences say when the abort carries
  the message of the level check and of the ratio check: when the earlier checks passed.
\<close>

theorem deposition_level_checks:
  "(depos_lev_of a pti \<noteq> GetLevel pti \<and> depos_lev_of a pti \<noteq> GetLevel pti - 1 \<longrightarrow>
      (\<exists>e. deposit_charge b c pti a s = (Aborted e, s))) \<and>
   (depos_lev_of a pti = GetLevel pti \<or> depos_lev_of a pti = GetLevel pti - 1 \<longrightarrow>
      fst (deposit_charge b c pti a s) \<noteq> Aborted Bad_deposition_level) \<and>
   (resolve_args b a (rho s) pti = Inl Bad_deposition_level \<longleftrightarrow>
      allLE (ng_rho_of a (rho s)) (nGrowVect (rho s)) \<and>
      long_wrap (np_to_deposit_of a pti + offset a) \<le> numParticles pti \<and>
      depos_lev_of a pti \<noteq> GetLevel pti \<and> depos_lev_of a pti \<noteq> GetLevel pti - 1) \<and>
   (depos_lev_of a pti \<noteq> GetLevel pti \<and> rel_ref_ratio a = None \<longrightarrow>
      (\<exists>e. deposit_charge b c pti a s = (Aborted e, s))) \<and>
   (resolve_args b a (rho s) pti = Inl Missing_ref_ratio \<longleftrightarrow>
      allLE (ng_rho_of a (rho s)) (nGrowVect (rho s)) \<and>
      long_wrap (np_to_deposit_of a pti + offset a) \<le> numParticles pti \<and>
      depos_lev_of a pti = GetLevel pti - 1 \<and> rel_ref_ratio a = None) \<and>
   (depos_lev a = None \<longrightarrow> depos_lev_of a pti = GetLevel pti) \<and>
   (depos_lev a = None \<and> resolve_args b a (rho s) pti = Inr r \<longrightarrow>
      r_depos_lev r = GetLevel pti \<and>
      r_rel_ref_ratio r = (case rel_ref_ratio a of None \<Rightarrow> replicate (spacedim (dim b)) 1
                           | Some ratio \<Rightarrow> ratio))"
proof -
  have inl: "\<exists>e. deposit_charge b c pti a s = (Aborted e, s)"
    if "\<not> (\<exists>r. resolve_args b a (rho s) pti = Inr r)"
    using that by (cases "resolve_args b a (rho s) pti") (auto simp: deposit_charge_Inl)
  have 1: "\<exists>e. deposit_charge b c pti a s = (Aborted e, s)"
    if "depos_lev_of a pti \<noteq> GetLevel pti \<and> depos_lev_of a pti \<noteq> GetLevel pti - 1"
    using that by (intro inl) (auto simp: resolve_args_Inr_iff)
  have 2: "fst (deposit_charge b c pti a s) \<noteq> Aborted Bad_deposition_level"
    if "depos_lev_of a pti = GetLevel pti \<or> depos_lev_of a pti = GetLevel pti - 1"
  proof (cases "resolve_args b a (rho s) pti")
    case (Inl e)
    with that have "e \<noteq> Bad_deposition_level"
      unfolding resolve_args_Inl_cases by auto
    with Inl show ?thesis by (simp add: deposit_charge_Inl)
  next
    case (Inr r)
    then show ?thesis by (simp add: deposit_charge_Inr)
  qed
  have 3: "\<exists>e. deposit_charge b c pti a s = (Aborted e, s)"
    if "depos_lev_of a pti \<noteq> GetLevel pti \<and> rel_ref_ratio a = None"
    using that by (intro inl) (auto simp: resolve_args_Inr_iff)
  have 4: "depos_lev_of a pti = GetLevel pti" if "depos_lev a = None"
    using that by (simp add: depos_lev_of_def)
  show ?thesis
    using 1 2 3 4 unfolding resolve_args_Inl_cases resolve_args_Inr_iff
    by (intro conjI impI) (auto simp del: fst_conv)
qed

text \<open>Target levels 3 and 0 for particles of level 1, with and without a ratio, and the defaults.\<close>

theorem deposition_level_checks_witness:
  "depos_lev_of (ex_args\<lparr>depos_lev := Some 3\<rparr>) (ex_pti [[3, 3, 3]]) = 3 \<and>
   GetLevel (ex_pti [[3, 3, 3]]) = 1 \<and>
   deposit_charge cpu3d ex_collab (ex_pti [[3, 3, 3]]) (ex_args\<lparr>depos_lev := Some 3\<rparr>) ex_state
     = (Aborted Bad_deposition_level, ex_state) \<and>
   deposit_charge cpu3d ex_collab (ex_pti [[3, 3, 3]]) (ex_args\<lparr>depos_lev := Some 0\<rparr>) ex_state
     = (Aborted Missing_ref_ratio, ex_state) \<and>
   fst (deposit_charge cpu3d ex_collab (ex_pti [[3, 3, 3]])
          (ex_args\<lparr>depos_lev := Some 0, rel_ref_ratio := Some [2, 2, 2]\<rparr>) ex_state)
     \<noteq> Aborted Bad_deposition_level \<and>
   r_depos_lev \<lparr>r_ng_rho = [2, 2, 2], r_np_to_deposit = 1, r_depos_lev = 1,
                r_rel_ref_ratio = [1, 1, 1]\<rparr> = GetLevel (ex_pti [[3, 3, 3]]) \<and>
   r_rel_ref_ratio \<lparr>r_ng_rho = [2, 2, 2], r_np_to_deposit = 1, r_depos_lev = 1,
                    r_rel_ref_ratio = [1, 1, 1]\<rparr> = replicate (spacedim (dim cpu3d)) 1"
proof -
  let ?pti = "ex_pti [[3, 3, 3]]"
  let ?a3 = "ex_args\<lparr>depos_lev := Some 3\<rparr>"
  let ?a0 = "ex_args\<lparr>depos_lev := Some 0\<rparr>"
  let ?a0r = "ex_args\<lparr>depos_lev := Some 0, rel_ref_ratio := Some [2, 2, 2]\<rparr>"
  let ?r = "\<lparr>r_ng_rho = [2, 2, 2], r_np_to_deposit = 1, r_depos_lev = 1,
             r_rel_ref_ratio = [1, 1, 1]\<rparr>"
  have lev: "GetLevel ?pti = 1" by (simp add: ex_pti_def)
  have d3: "depos_lev_of ?a3 ?pti = 3" by (simp add: depos_lev_of_def)
  have d0: "depos_lev_of ?a0 ?pti = 0" "rel_ref_ratio ?a0 = None"
    by (simp_all add: depos_lev_of_def ex_args_def)
  have d0r: "depos_lev_of ?a0r ?pti = 0" by (simp add: depos_lev_of_def)
  have dn: "depos_lev ex_args = None" "rel_ref_ratio ex_args = None" by (simp_all add: ex_args_def)
  have r3: "resolve_args cpu3d ?a3 (rho ex_state) ?pti = Inl Bad_deposition_level"
    by (simp add: model_defs example_defs)
  have r0: "resolve_args cpu3d ?a0 (rho ex_state) ?pti = Inl Missing_ref_ratio"
    by (simp add: model_defs example_defs)
  note t3 = deposition_level_checks [of ?a3 ?pti cpu3d ex_collab ex_state ?r]
  note t0 = deposition_level_checks [of ?a0 ?pti cpu3d ex_collab ex_state ?r]
  note t0r = deposition_level_checks [of ?a0r ?pti cpu3d ex_collab ex_state ?r]
  note tn = deposition_level_checks [of ex_args ?pti cpu3d ex_collab ex_state ?r]
  from t3 d3 lev have "\<exists>e. deposit_charge cpu3d ex_collab ?pti ?a3 ex_state = (Aborted e, ex_state)"
    by simp
  then have c1: "deposit_charge cpu3d ex_collab ?pti ?a3 ex_state
                 = (Aborted Bad_deposition_level, ex_state)"
    by (simp add: deposit_charge_Inl [OF r3])
  from t0 d0 lev have "\<exists>e. deposit_charge cpu3d ex_collab ?pti ?a0 ex_state = (Aborted e, ex_state)"
    by simp
  then have c2: "deposit_charge cpu3d ex_collab ?pti ?a0 ex_state
                 = (Aborted Missing_ref_ratio, ex_state)"
    by (simp add: deposit_charge_Inl [OF r0])
  from t0r d0r lev have c3: "fst (deposit_charge cpu3d ex_collab ?pti ?a0r ex_state)
                             \<noteq> Aborted Bad_deposition_level"
    by simp
  from tn dn ex_resolve_default
  have c4: "r_depos_lev ?r = GetLevel ?pti \<and> r_rel_ref_ratio ?r = replicate (spacedim (dim cpu3d)) 1"
    by simp
  from c1 c2 c3 c4 d3 lev show ?thesis by simp
qed

subsection \<open>The tile box (claim C5)\<close>

text \<open>
  Claim C5: in a call that reaches the scatter, when the target level is not the owning
  level it is that level minus one, the caller has supplied a ratio, and everything after
  the choice of the tile box works on the iterator's tile box coarsened by that ratio; when
  the levels are equal it works on the tile box itself. The lower corner handed to the
  kernel is the one of the chosen box grown by \<open>ng_rho\<close>.
\<close>

theorem tile_box_coarsened_for_coarser_level:
  assumes "resolve_args b a (rho s) pti = Inr r" and "r_np_to_deposit r \<noteq> 0"
    and "numParticlesOutOfRange c pti
           (range_dep b (rho s) (r_ng_rho r)
              (shape_extent (dim b) (particle_shape a) (particle_shape a) (particle_shape a))) = 0"
  shows "(depos_lev_of a pti \<noteq> GetLevel pti \<longrightarrow>
            depos_lev_of a pti = GetLevel pti - 1 \<and>
            (\<exists>ratio. rel_ref_ratio a = Some ratio \<and>
               deposit_charge b c pti a s =
                 (Returned, scatter b c (particles pti) a r (coarsen c (tilebox pti) ratio) s))) \<and>
         (depos_lev_of a pti = GetLevel pti \<longrightarrow>
            deposit_charge b c pti a s =
              (Returned, scatter b c (particles pti) a r (tilebox pti) s)) \<and>
         k_lo (kernel_args ps a r tbx) = lbound (grow tbx (r_ng_rho r))"
proof -
  from assms(1) have r: "r_depos_lev r = depos_lev_of a pti"
    "depos_lev_of a pti = GetLevel pti - 1 \<or> depos_lev_of a pti = GetLevel pti"
    "rel_ref_ratio a = None \<longrightarrow> depos_lev_of a pti = GetLevel pti"
    "r_rel_ref_ratio r = (case rel_ref_ratio a of None \<Rightarrow> replicate (spacedim (dim b)) 1
                          | Some ratio \<Rightarrow> ratio)"
    by (simp_all add: resolve_args_Inr_iff)
  have same: "deposit_charge b c pti a s =
              (Returned, scatter b c (particles pti) a r (tilebox pti) s)"
    if "depos_lev_of a pti = GetLevel pti"
    using that assms(2,3) r(1) by (simp add: deposit_charge_Inr [OF assms(1)])
  have coarser: "depos_lev_of a pti = GetLevel pti - 1 \<and>
            (\<exists>ratio. rel_ref_ratio a = Some ratio \<and>
               deposit_charge b c pti a s =
                 (Returned, scatter b c (particles pti) a r (coarsen c (tilebox pti) ratio) s))"
    if neq: "depos_lev_of a pti \<noteq> GetLevel pti"
  proof -
    from neq r(3) obtain ratio where ratio: "rel_ref_ratio a = Some ratio" by auto
    with r(4) have "r_rel_ref_ratio r = ratio" by simp
    with neq assms(2,3) r(1) have "deposit_charge b c pti a s =
        (Returned, scatter b c (particles pti) a r (coarsen c (tilebox pti) ratio) s)"
      by (simp add: deposit_charge_Inr [OF assms(1)])
    with ratio neq r(2) show ?thesis by auto
  qed
  have "k_lo (kernel_args ps a r tbx) = lbound (grow tbx (r_ng_rho r))"
    by (simp add: kernel_args_def Let_def)
  with same coarser show ?thesis by blast
qed

text \<open>Level 1 deposited on level 0 with ratio 2: the tile box 0..7 becomes 0..3.\<close>

theorem tile_box_coarsened_for_coarser_level_witness:
  "coarsen ex_collab (tilebox (ex_pti [[3, 3, 3]])) [2, 2, 2]
     = \<lparr>smallEnd = [0, 0, 0], bigEnd = [3, 3, 3], btype = [0, 0, 0]\<rparr> \<and>
   deposit_charge cpu3d ex_collab (ex_pti [[3, 3, 3]])
      (ex_args\<lparr>depos_lev := Some 0, rel_ref_ratio := Some [2, 2, 2]\<rparr>) ex_state
     = (Returned,
        scatter cpu3d ex_collab [[3, 3, 3]]
          (ex_args\<lparr>depos_lev := Some 0, rel_ref_ratio := Some [2, 2, 2]\<rparr>)
          \<lparr>r_ng_rho = [2, 2, 2], r_np_to_deposit = 1, r_depos_lev = 0,
           r_rel_ref_ratio = [2, 2, 2]\<rparr>
          \<lparr>smallEnd = [0, 0, 0], bigEnd = [3, 3, 3], btype = [0, 0, 0]\<rparr> ex_state) \<and>
   deposit_charge cpu3d ex_collab (ex_pti [[3, 3, 3]]) ex_args ex_state
     = (Returned,
        scatter cpu3d ex_collab [[3, 3, 3]] ex_args
          \<lparr>r_ng_rho = [2, 2, 2], r_np_to_deposit = 1, r_depos_lev = 1,
           r_rel_ref_ratio = [1, 1, 1]\<rparr>
          ex_tilebox ex_state) \<and>
   k_lo (kernel_args ([[3, 3, 3]] :: intvect list)
           (ex_args\<lparr>depos_lev := Some 0, rel_ref_ratio := Some [2, 2, 2]\<rparr>)
           \<lparr>r_ng_rho = [2, 2, 2], r_np_to_deposit = 1, r_depos_lev = 0,
            r_rel_ref_ratio = [2, 2, 2]\<rparr>
           \<lparr>smallEnd = [0, 0, 0], bigEnd = [3, 3, 3], btype = [0, 0, 0]\<rparr>) = (-2, -2, -2)"
proof -
  let ?pti = "ex_pti [[3, 3, 3]]"
  let ?a = "ex_args\<lparr>depos_lev := Some 0, rel_ref_ratio := Some [2, 2, 2]\<rparr>"
  let ?r = "\<lparr>r_ng_rho = [2, 2, 2], r_np_to_deposit = 1, r_depos_lev = 0,
             r_rel_ref_ratio = [2, 2, 2]\<rparr>"
  let ?r1 = "\<lparr>r_ng_rho = [2, 2, 2], r_np_to_deposit = 1, r_depos_lev = 1,
              r_rel_ref_ratio = [1, 1, 1]\<rparr>"
  let ?cb = "\<lparr>smallEnd = [0, 0, 0], bigEnd = [3, 3, 3], btype = [0, 0, 0]\<rparr>"
  have h1: "resolve_args cpu3d ?a (rho ex_state) ?pti = Inr ?r"
    by (simp add: model_defs example_defs)
  have h2: "r_np_to_deposit ?r \<noteq> 0" "r_np_to_deposit ?r1 \<noteq> 0" by simp_all
  have h3: "numParticlesOutOfRange ex_collab ?pti
              (range_dep cpu3d (rho ex_state) (r_ng_rho ?r)
                 (shape_extent (dim cpu3d) (particle_shape ?a) (particle_shape ?a)
                    (particle_shape ?a))) = 0"
    by (simp add: model_defs example_defs)
  have h3': "numParticlesOutOfRange ex_collab ?pti
              (range_dep cpu3d (rho ex_state) (r_ng_rho ?r1)
                 (shape_extent (dim cpu3d) (particle_shape ex_args) (particle_shape ex_args)
                    (particle_shape ex_args))) = 0"
    by (simp add: model_defs example_defs)
  have lv: "depos_lev_of ?a ?pti \<noteq> GetLevel ?pti" "rel_ref_ratio ?a = Some [2, 2, 2]"
           "depos_lev_of ex_args ?pti = GetLevel ?pti"
           "particles ?pti = [[3, 3, 3]]" "tilebox ?pti = ex_tilebox"
    by (simp_all add: depos_lev_of_def ex_pti_def ex_args_def)
  have co: "coarsen ex_collab (tilebox ?pti) [2, 2, 2] = ?cb"
    by (simp add: example_defs)
  have lo: "lbound (grow ?cb (r_ng_rho ?r)) = (-2, -2, -2)"
    by (simp add: grow_def iv_minus_def)
  note t = tile_box_coarsened_for_coarser_level [OF h1 h2(1) h3, of "[[3, 3, 3]] :: intvect list" ?cb]
  note t1 = tile_box_coarsened_for_coarser_level
              [OF ex_resolve_default h2(2) h3', of "[[3, 3, 3]] :: intvect list" ?cb]
  from t lv co lo
  have A: "deposit_charge cpu3d ex_collab ?pti ?a ex_state
             = (Returned, scatter cpu3d ex_collab [[3, 3, 3]] ?a ?r ?cb ex_state)"
    and C: "k_lo (kernel_args ([[3, 3, 3]] :: intvect list) ?a ?r ?cb) = (-2, -2, -2)"
    by simp_all
  from t1 lv
  have B: "deposit_charge cpu3d ex_collab ?pti ex_args ex_state
             = (Returned, scatter cpu3d ex_collab [[3, 3, 3]] ex_args ?r1 ex_tilebox ex_state)"
    by simp
  from co A B C show ?thesis by simp
qed

subsection \<open>The empty batch (claim C6)\<close>

text \<open>
  Claim C6: with zero particles to deposit the fields are left exactly as they were, the
  scratch buffer included, and no kernel runs; and the call returns normally whenever its
  arguments are valid (guard override within the allocation, offset within the batch,
  target level the owning level, or that level minus one with a ratio). The offset is
  compared as the code sums it with the count of zero, \<open>long_wrap (offset a)\<close>, which is the
  offset itself for every 64-bit value, as the last conjunct says.
\<close>

theorem empty_batch_is_noop:
  assumes "np_to_deposit_of a pti = 0"
  shows "snd (deposit_charge b c pti a s) = s \<and>
         (allLE (ng_rho_of a (rho s)) (nGrowVect (rho s)) \<and> long_wrap (offset a) \<le> numParticles pti \<and>
          (depos_lev_of a pti = GetLevel pti \<or>
           depos_lev_of a pti = GetLevel pti - 1 \<and> rel_ref_ratio a \<noteq> None) \<longrightarrow>
            deposit_charge b c pti a s = (Returned, s)) \<and>
         (- (2 ^ 63) \<le> offset a \<and> offset a < 2 ^ 63 \<longrightarrow> long_wrap (offset a) = offset a)"
proof (cases "resolve_args b a (rho s) pti")
  case (Inl e)
  then have "deposit_charge b c pti a s = (Aborted e, s)"
    by (rule deposit_charge_Inl)
  moreover from Inl assms have
    "\<not> (allLE (ng_rho_of a (rho s)) (nGrowVect (rho s)) \<and> long_wrap (offset a) \<le> numParticles pti \<and>
          (depos_lev_of a pti = GetLevel pti \<or>
           depos_lev_of a pti = GetLevel pti - 1 \<and> rel_ref_ratio a \<noteq> None))"
    unfolding resolve_args_Inl_cases by auto
  ultimately show ?thesis by (simp add: long_wrap_id)
next
  case (Inr r)
  then have "r_np_to_deposit r = 0"
    using assms by (simp add: resolve_args_Inr_iff)
  then show ?thesis by (simp add: deposit_charge_Inr [OF Inr] long_wrap_id)
qed

text \<open>An iterator without particles, and a count of 0 on the GPU path with a particle out of range.\<close>

theorem empty_batch_is_noop_witness:
  "np_to_deposit_of ex_args (ex_pti []) = 0 \<and>
   deposit_charge cpu3d ex_collab (ex_pti []) ex_args ex_state = (Returned, ex_state) \<and>
   np_to_deposit_of (ex_args\<lparr>np_to_deposit := Some 0, offset := 1\<rparr>) (ex_pti [[9, 3, 3]]) = 0 \<and>
   deposit_charge gpu3d ex_collab (ex_pti [[9, 3, 3]])
      (ex_args\<lparr>np_to_deposit := Some 0, offset := 1\<rparr>) ex_state = (Returned, ex_state)"
proof -
  let ?a = "ex_args\<lparr>np_to_deposit := Some 0, offset := 1\<rparr>"
  have h: "np_to_deposit_of ex_args (ex_pti []) = 0"
    by (simp add: model_defs example_defs)
  have h': "np_to_deposit_of ?a (ex_pti [[9, 3, 3]]) = 0"
    by (simp add: model_defs example_defs gpu3d_def)
  have ok: "allLE (ng_rho_of ex_args (rho ex_state)) (nGrowVect (rho ex_state)) \<and>
            long_wrap (offset ex_args) \<le> numParticles (ex_pti []) \<and>
            depos_lev_of ex_args (ex_pti []) = GetLevel (ex_pti [])"
    by (simp add: model_defs example_defs)
  have ok': "allLE (ng_rho_of ?a (rho ex_state)) (nGrowVect (rho ex_state)) \<and>
            long_wrap (offset ?a) \<le> numParticles (ex_pti [[9, 3, 3]]) \<and>
            depos_lev_of ?a (ex_pti [[9, 3, 3]]) = GetLevel (ex_pti [[9, 3, 3]])"
    by (simp add: model_defs example_defs gpu3d_def)
  from empty_batch_is_noop [OF h, of cpu3d ex_collab ex_state] ok
       empty_batch_is_noop [OF h', of gpu3d ex_collab ex_state] ok' h h'
  show ?thesis by simp
qed

subsection \<open>Count and offset (claim C7)\<close>

text \<open>
  Claim C7, as stated, at the count \<open>2 ^ 63 - 1\<close>, the largest \<^verbatim>\<open>long\<close>, with offset 1 and
  one particle in the iterator: count plus offset exceeds the number of particles, the sum
  wraps around to \<open>- (2 ^ 63)\<close>, the assertion passes, and the call returns after running
  the kernel.
\<close>

theorem count_check_passes_on_overflow:
  "numParticles (ex_pti [[3, 3, 3]])
     < np_to_deposit_of (ex_args\<lparr>np_to_deposit := Some 9223372036854775807, offset := 1\<rparr>)
         (ex_pti [[3, 3, 3]])
       + offset (ex_args\<lparr>np_to_deposit := Some 9223372036854775807, offset := 1\<rparr>) \<and>
   fst (deposit_charge cpu3d ex_collab (ex_pti [[3, 3, 3]])
          (ex_args\<lparr>np_to_deposit := Some 9223372036854775807, offset := 1\<rparr>) ex_state)
     = Returned"
proof -
  let ?pti = "ex_pti [[3, 3, 3]]"
  let ?a = "ex_args\<lparr>np_to_deposit := Some 9223372036854775807, offset := 1\<rparr>"
  let ?r = "\<lparr>r_ng_rho = [2, 2, 2], r_np_to_deposit = 9223372036854775807, r_depos_lev = 1,
             r_rel_ref_ratio = [1, 1, 1]\<rparr>"
  have n: "numParticles ?pti < np_to_deposit_of ?a ?pti + offset ?a"
    by (simp add: numParticles_def np_to_deposit_of_def ex_pti_def)
  have res: "resolve_args cpu3d ?a (rho ex_state) ?pti = Inr ?r"
    by (simp add: model_defs example_defs numeral_eq_Suc)
  have oor: "numParticlesOutOfRange ex_collab ?pti
               (range_dep cpu3d (rho ex_state) (r_ng_rho ?r)
                  (shape_extent (dim cpu3d) (particle_shape ?a) (particle_shape ?a)
                     (particle_shape ?a))) = 0"
    by (simp add: model_defs example_defs)
  from oor have "fst (deposit_charge cpu3d ex_collab ?pti ?a ex_state) = Returned"
    by (simp add: deposit_charge_Inr [OF res])
  with n show ?thesis by simp
qed

text \<open>
  Claim C7, amended: for every count and offset whose sum is a 64-bit value, that is, does
  not overflow the \<^verbatim>\<open>long\<close> in which the code adds them, the call aborts if the number of
  particles to deposit plus the offset exceeds the number of particles of the iterator,
  and it aborts with the message of this check exactly in that case (the guard check,
  which comes first, having passed). A supplied count is the number of particles to
  deposit; without a count the number of particles of the iterator is taken, and then
  offset 0 never fails this check.
\<close>

theorem count_plus_offset_check:
  "(- (2 ^ 63) \<le> np_to_deposit_of a pti + offset a \<and> np_to_deposit_of a pti + offset a < 2 ^ 63 \<longrightarrow>
      (numParticles pti < np_to_deposit_of a pti + offset a \<longrightarrow>
         (\<exists>e. deposit_charge b c pti a s = (Aborted e, s))) \<and>
      (fst (deposit_charge b c pti a s) = Aborted Count_out_of_bounds \<longleftrightarrow>
         allLE (ng_rho_of a (rho s)) (nGrowVect (rho s)) \<and>
         numParticles pti < np_to_deposit_of a pti + offset a)) \<and>
   (np_to_deposit a = Some n \<longrightarrow> np_to_deposit_of a pti = n) \<and>
   (np_to_deposit a = None \<longrightarrow> np_to_deposit_of a pti = numParticles pti) \<and>
   (np_to_deposit a = None \<and> offset a = 0 \<longrightarrow>
      fst (deposit_charge b c pti a s) \<noteq> Aborted Count_out_of_bounds)"
proof -
  have iff: "fst (deposit_charge b c pti a s) = Aborted Count_out_of_bounds \<longleftrightarrow>
      allLE (ng_rho_of a (rho s)) (nGrowVect (rho s)) \<and>
      numParticles pti < long_wrap (np_to_deposit_of a pti + offset a)"
  proof (cases "resolve_args b a (rho s) pti")
    case (Inl e)
    then have "fst (deposit_charge b c pti a s) = Aborted e"
      by (simp add: deposit_charge_Inl)
    with Inl show ?thesis
      unfolding resolve_args_Inl_cases by auto
  next
    case (Inr r)
    then show ?thesis
      unfolding resolve_args_Inr_iff by (auto simp: deposit_charge_Inr [OF Inr])
  qed
  have ab: "\<exists>e. deposit_charge b c pti a s = (Aborted e, s)"
    if "numParticles pti < long_wrap (np_to_deposit_of a pti + offset a)"
    using that
    by (cases "resolve_args b a (rho s) pti")
       (auto simp: deposit_charge_Inl resolve_args_Inr_iff)
  have some: "np_to_deposit_of a pti = n" if "np_to_deposit a = Some n"
    using that by (simp add: np_to_deposit_of_def)
  have dflt: "np_to_deposit_of a pti = numParticles pti" if "np_to_deposit a = None"
    using that by (simp add: np_to_deposit_of_def)
  have zero: "fst (deposit_charge b c pti a s) \<noteq> Aborted Count_out_of_bounds"
    if "np_to_deposit a = None \<and> offset a = 0"
  proof -
    have "0 \<le> numParticles pti" by (simp add: numParticles_def)
    then have "long_wrap (numParticles pti) \<le> numParticles pti"
      by (rule long_wrap_le)
    with that dflt iff show ?thesis by simp
  qed
  have inr: "(numParticles pti < np_to_deposit_of a pti + offset a \<longrightarrow>
         (\<exists>e. deposit_charge b c pti a s = (Aborted e, s))) \<and>
      (fst (deposit_charge b c pti a s) = Aborted Count_out_of_bounds \<longleftrightarrow>
         allLE (ng_rho_of a (rho s)) (nGrowVect (rho s)) \<and>
         numParticles pti < np_to_deposit_of a pti + offset a)"
    if "- (2 ^ 63) \<le> np_to_deposit_of a pti + offset a \<and> np_to_deposit_of a pti + offset a < 2 ^ 63"
  proof -
    from that have "long_wrap (np_to_deposit_of a pti + offset a) = np_to_deposit_of a pti + offset a"
      by (simp add: long_wrap_id)
    with iff ab show ?thesis by (simp del: fst_conv)
  qed
  from inr some dflt zero show ?thesis by blast
qed

text \<open>Two particles: count 2 from offset 1 fails, the defaults do not.\<close>

theorem count_plus_offset_check_witness:
  "numParticles (ex_pti [[3, 3, 3], [4, 4, 4]]) = 2 \<and>
   np_to_deposit_of (ex_args\<lparr>np_to_deposit := Some 2, offset := 1\<rparr>)
      (ex_pti [[3, 3, 3], [4, 4, 4]]) + offset (ex_args\<lparr>np_to_deposit := Some 2, offset := 1\<rparr>) = 3 \<and>
   fst (deposit_charge cpu3d ex_collab (ex_pti [[3, 3, 3], [4, 4, 4]])
          (ex_args\<lparr>np_to_deposit := Some 2, offset := 1\<rparr>) ex_state) = Aborted Count_out_of_bounds \<and>
   np_to_deposit_of ex_args (ex_pti [[3, 3, 3], [4, 4, 4]]) = 2 \<and>
   fst (deposit_charge cpu3d ex_collab (ex_pti [[3, 3, 3], [4, 4, 4]]) ex_args ex_state)
     \<noteq> Aborted Count_out_of_bounds"
proof -
  let ?pti = "ex_pti [[3, 3, 3], [4, 4, 4]]"
  let ?a = "ex_args\<lparr>np_to_deposit := Some 2, offset := 1\<rparr>"
  have n: "numParticles ?pti = 2" by (simp add: numParticles_def ex_pti_def)
  have np: "np_to_deposit_of ?a ?pti + offset ?a = 3" by (simp add: np_to_deposit_of_def)
  have g: "allLE (ng_rho_of ?a (rho ex_state)) (nGrowVect (rho ex_state))"
    by (simp add: model_defs example_defs)
  have d: "np_to_deposit ex_args = None" "offset ex_args = 0" by (simp_all add: ex_args_def)
  have s: "np_to_deposit ?a = Some 2" by simp
  from count_plus_offset_check [of ?a ?pti cpu3d ex_collab ex_state 2] n np g s
  have A: "fst (deposit_charge cpu3d ex_collab ?pti ?a ex_state) = Aborted Count_out_of_bounds"
    by simp
  from count_plus_offset_check [of ex_args ?pti cpu3d ex_collab ex_state 2] d n
  have B: "np_to_deposit_of ex_args ?pti = 2 \<and>
           fst (deposit_charge cpu3d ex_collab ?pti ex_args ex_state) \<noteq> Aborted Count_out_of_bounds"
    by simp
  from n np A B show ?thesis by simp
qed

subsection \<open>The guard override (claim C9)\<close>

text \<open>
  Claim C9: a guard-cell override that exceeds the allocated guard cells of \<open>rho\<close> in some
  dimension makes the call abort at the first check, with the fields untouched; without an
  override the allocated guard cells of \<open>rho\<close> are used as \<open>ng_rho\<close>, and the first check
  cannot fail.
\<close>

theorem guard_override_check:
  "(num_rho_deposition_guards a = Some g \<and> length g = length (nGrowVect (rho s)) \<and>
    (\<exists>i<length g. nGrowVect (rho s) ! i < g ! i) \<longrightarrow>
      deposit_charge b c pti a s = (Aborted Guards_larger_than_allocated, s)) \<and>
   (num_rho_deposition_guards a = None \<longrightarrow>
      ng_rho_of a (rho s) = nGrowVect (rho s) \<and>
      fst (deposit_charge b c pti a s) \<noteq> Aborted Guards_larger_than_allocated) \<and>
   (num_rho_deposition_guards a = None \<and> resolve_args b a (rho s) pti = Inr r \<longrightarrow>
      r_ng_rho r = nGrowVect (rho s))"
proof (intro conjI impI)
  assume h: "num_rho_deposition_guards a = Some g \<and> length g = length (nGrowVect (rho s)) \<and>
    (\<exists>i<length g. nGrowVect (rho s) ! i < g ! i)"
  then have "\<not> allLE (ng_rho_of a (rho s)) (nGrowVect (rho s))"
    by (auto simp: ng_rho_of_def allLE_nth)
  then have "resolve_args b a (rho s) pti = Inl Guards_larger_than_allocated"
    unfolding resolve_args_Inl_cases by simp
  then show "deposit_charge b c pti a s = (Aborted Guards_larger_than_allocated, s)"
    by (rule deposit_charge_Inl)
next
  assume h: "num_rho_deposition_guards a = None"
  then show ng: "ng_rho_of a (rho s) = nGrowVect (rho s)"
    by (simp add: ng_rho_of_def)
  show "fst (deposit_charge b c pti a s) \<noteq> Aborted Guards_larger_than_allocated"
  proof (cases "resolve_args b a (rho s) pti")
    case (Inl e)
    with ng have "e \<noteq> Guards_larger_than_allocated"
      unfolding resolve_args_Inl_cases by (auto simp: allLE_refl)
    with Inl show ?thesis by (simp add: deposit_charge_Inl)
  next
    case (Inr r)
    then show ?thesis by (simp add: deposit_charge_Inr [OF Inr])
  qed
next
  assume "num_rho_deposition_guards a = None \<and> resolve_args b a (rho s) pti = Inr r"
  then show "r_ng_rho r = nGrowVect (rho s)"
    by (simp add: resolve_args_Inr_iff ng_rho_of_def)
qed

text \<open>An override of 3 guard cells in one direction where 2 are allocated, and no override.\<close>

theorem guard_override_check_witness:
  "nGrowVect (rho ex_state) = [2, 2, 2] \<and>
   deposit_charge cpu3d ex_collab (ex_pti [[3, 3, 3]])
      (ex_args\<lparr>num_rho_deposition_guards := Some [2, 3, 2]\<rparr>) ex_state
     = (Aborted Guards_larger_than_allocated, ex_state) \<and>
   ng_rho_of ex_args (rho ex_state) = [2, 2, 2] \<and>
   fst (deposit_charge cpu3d ex_collab (ex_pti [[3, 3, 3]]) ex_args ex_state)
     \<noteq> Aborted Guards_larger_than_allocated \<and>
   r_ng_rho \<lparr>r_ng_rho = [2, 2, 2], r_np_to_deposit = 1, r_depos_lev = 1,
             r_rel_ref_ratio = [1, 1, 1]\<rparr> = nGrowVect (rho ex_state)"
proof -
  let ?pti = "ex_pti [[3, 3, 3]]"
  let ?a = "ex_args\<lparr>num_rho_deposition_guards := Some [2, 3, 2]\<rparr>"
  let ?r = "\<lparr>r_ng_rho = [2, 2, 2], r_np_to_deposit = 1, r_depos_lev = 1,
             r_rel_ref_ratio = [1, 1, 1]\<rparr>"
  have ng: "nGrowVect (rho ex_state) = [2, 2, 2]" by (simp add: ex_state_def ex_rho_def)
  have h: "num_rho_deposition_guards ?a = Some [2, 3, 2] \<and>
           length [2, 3, 2 :: int] = length (nGrowVect (rho ex_state)) \<and>
           (\<exists>i<length [2, 3, 2 :: int]. nGrowVect (rho ex_state) ! i < [2, 3, 2] ! i)"
    unfolding ng by (auto intro: exI [of _ 1])
  have d: "num_rho_deposition_guards ex_args = None" by (simp add: ex_args_def)
  from guard_override_check [of ?a "[2, 3, 2]" ex_state cpu3d ex_collab ?pti ?r] h
  have A: "deposit_charge cpu3d ex_collab ?pti ?a ex_state
             = (Aborted Guards_larger_than_allocated, ex_state)"
    by blast
  from guard_override_check [of ex_args "[2, 3, 2]" ex_state cpu3d ex_collab ?pti ?r]
       d ex_resolve_default ng
  have B: "ng_rho_of ex_args (rho ex_state) = [2, 2, 2] \<and>
           fst (deposit_charge cpu3d ex_collab ?pti ex_args ex_state)
             \<noteq> Aborted Guards_larger_than_allocated \<and>
           r_ng_rho ?r = nGrowVect (rho ex_state)"
    by simp
  from ng A B show ?thesis by simp
qed

subsection \<open>Shape orders without a kernel (claim C10)\<close>

text \<open>
  Claim C10, as stated, at shape order 12 on the CPU path with two guard cells: the extent
  computed from the order is 7, the margin is -5, the tile box grown by it is empty, and
  the call aborts in the fit check although the order has no kernel.
\<close>

theorem order_12_aborts_in_fit_check:
  "particle_shape (ex_args\<lparr>particle_shape := 12\<rparr>) = 12 \<and>
   shape_extent (dim cpu3d) 12 12 12 = [7, 7, 7] \<and>
   deposit_charge cpu3d ex_collab (ex_pti [[3, 3, 3]]) (ex_args\<lparr>particle_shape := 12\<rparr>) ex_state
     = (Aborted Shape_does_not_fit, ex_state)"
proof -
  let ?pti = "ex_pti [[3, 3, 3]]"
  let ?a = "ex_args\<lparr>particle_shape := 12\<rparr>"
  let ?r = "\<lparr>r_ng_rho = [2, 2, 2], r_np_to_deposit = 1, r_depos_lev = 1,
             r_rel_ref_ratio = [1, 1, 1]\<rparr>"
  have ext: "shape_extent (dim cpu3d) 12 12 12 = [7, 7, 7]"
    by (simp add: model_defs example_defs)
  have res: "resolve_args cpu3d ?a (rho ex_state) ?pti = Inr ?r"
    by (simp add: model_defs example_defs numeral_eq_Suc)
  have oor: "numParticlesOutOfRange ex_collab ?pti
               (range_dep cpu3d (rho ex_state) (r_ng_rho ?r)
                  (shape_extent (dim cpu3d) (particle_shape ?a) (particle_shape ?a)
                     (particle_shape ?a))) = 1"
    by (simp add: model_defs example_defs)
  then have "deposit_charge cpu3d ex_collab ?pti ?a ex_state = (Aborted Shape_does_not_fit, ex_state)"
    by (simp add: deposit_charge_Inr [OF res])
  with ext show ?thesis by simp
qed

text \<open>
  Claim C10, amended: for a shape order outside \<open>{1, 2, 3, 4}\<close> the dispatch takes no
  branch, so no kernel runs, and no check rejects the order as such: the four argument
  checks do not look at it, and the charge density is the same after the call as before in
  every case. The fit check still runs, with the extent \<open>particle_shape / 2 + 1\<close> computed
  from the unsupported order, and can abort the call; once the argument checks have passed
  the call returns normally exactly when there is nothing to deposit or no particle is out
  of the range so computed, and any abort is the one of the fit check. On the GPU path
  nothing at all has changed; on the CPU path a call that gets past the fit check has
  resized and zeroed the scratch buffer and has added it, as zeros, to the charge density.
\<close>

theorem unsupported_shape_is_silent:
  assumes "particle_shape a \<notin> {1, 2, 3, 4}"
  shows "dispatch c (particle_shape a) ka f = None \<and>
         rho (snd (deposit_charge b c pti a s)) = rho s \<and>
         resolve_args b a (rho s) pti = resolve_args b (a\<lparr>particle_shape := 1\<rparr>) (rho s) pti \<and>
         (AMREX_USE_GPU b \<longrightarrow> snd (deposit_charge b c pti a s) = s) \<and>
         (resolve_args b a (rho s) pti = Inr r \<longrightarrow>
            (fst (deposit_charge b c pti a s) = Returned \<longleftrightarrow>
               r_np_to_deposit r = 0 \<or>
               numParticlesOutOfRange c pti
                 (range_dep b (rho s) (r_ng_rho r)
                    (shape_extent (dim b) (particle_shape a) (particle_shape a)
                       (particle_shape a))) = 0) \<and>
            (fst (deposit_charge b c pti a s) \<noteq> Returned \<longrightarrow>
               fst (deposit_charge b c pti a s) = Aborted Shape_does_not_fit) \<and>
            (fst (deposit_charge b c pti a s) = Returned \<and> \<not> AMREX_USE_GPU b \<and>
             r_np_to_deposit r \<noteq> 0 \<longrightarrow>
               local_rho (snd (deposit_charge b c pti a s)) =
                 setVal (resize (local_rho s)
                           (grow (convert (if GetLevel pti = r_depos_lev r then tilebox pti
                                           else coarsen c (tilebox pti) (r_rel_ref_ratio r))
                                    (ixType (rho s))) (r_ng_rho r)) (nc a)) 0))"
proof (intro conjI impI)
  show "dispatch c (particle_shape a) ka f = None"
    using assms by (rule dispatch_None)
  show "rho (snd (deposit_charge b c pti a s)) = rho s"
    by (cases "resolve_args b a (rho s) pti")
       (simp_all add: deposit_charge_Inl deposit_charge_Inr scatter_unsupported_rho [OF assms])
  show "resolve_args b a (rho s) pti = resolve_args b (a\<lparr>particle_shape := 1\<rparr>) (rho s) pti"
    by (simp add: resolve_args_def ng_rho_of_def np_to_deposit_of_def depos_lev_of_def Let_def)
  show "snd (deposit_charge b c pti a s) = s" if "AMREX_USE_GPU b"
    using that assms
    by (cases "resolve_args b a (rho s) pti")
       (simp_all add: deposit_charge_Inl deposit_charge_Inr scatter_def Let_def dispatch_None)
next
  assume h: "resolve_args b a (rho s) pti = Inr r"
  show "fst (deposit_charge b c pti a s) = Returned \<longleftrightarrow>
               r_np_to_deposit r = 0 \<or>
               numParticlesOutOfRange c pti
                 (range_dep b (rho s) (r_ng_rho r)
                    (shape_extent (dim b) (particle_shape a) (particle_shape a)
                       (particle_shape a))) = 0"
    by (simp add: deposit_charge_Inr [OF h])
  show "fst (deposit_charge b c pti a s) = Aborted Shape_does_not_fit"
    if "fst (deposit_charge b c pti a s) \<noteq> Returned"
    using that by (simp add: deposit_charge_Inr [OF h] split: if_splits)
  show "local_rho (snd (deposit_charge b c pti a s)) =
                 setVal (resize (local_rho s)
                           (grow (convert (if GetLevel pti = r_depos_lev r then tilebox pti
                                           else coarsen c (tilebox pti) (r_rel_ref_ratio r))
                                    (ixType (rho s))) (r_ng_rho r)) (nc a)) 0"
    if "fst (deposit_charge b c pti a s) = Returned \<and> \<not> AMREX_USE_GPU b \<and>
        r_np_to_deposit r \<noteq> 0"
    using that assms
    by (simp add: deposit_charge_Inr [OF h] scatter_def Let_def dispatch_None split: if_splits)
qed

text \<open>
  Order 5 on both paths with a particle in the middle of the tile: the margin is -1, the
  particle is in range, the call returns and the charge density is as before.
\<close>

theorem unsupported_shape_is_silent_witness:
  "(5::int) \<notin> {1, 2, 3, 4} \<and>
   dispatch ex_collab 5 ex_kargs (local_rho ex_state) = None \<and>
   numParticlesOutOfRange ex_collab (ex_pti [[3, 3, 3]]) [-1, -1, -1] = 0 \<and>
   fst (deposit_charge cpu3d ex_collab (ex_pti [[3, 3, 3]]) (ex_args\<lparr>particle_shape := 5\<rparr>) ex_state)
     = Returned \<and>
   rho (snd (deposit_charge cpu3d ex_collab (ex_pti [[3, 3, 3]])
               (ex_args\<lparr>particle_shape := 5\<rparr>) ex_state)) = rho ex_state \<and>
   local_rho (snd (deposit_charge cpu3d ex_collab (ex_pti [[3, 3, 3]])
                     (ex_args\<lparr>particle_shape := 5\<rparr>) ex_state))
     = setVal (resize (local_rho ex_state)
                 \<lparr>smallEnd = [-2, -2, -2], bigEnd = [10, 10, 10], btype = [1, 1, 1]\<rparr> 1) 0 \<and>
   deposit_charge gpu3d ex_collab (ex_pti [[3, 3, 3]]) (ex_args\<lparr>particle_shape := 5\<rparr>) ex_state
     = (Returned, ex_state)"
proof -
  let ?pti = "ex_pti [[3, 3, 3]]"
  let ?a = "ex_args\<lparr>particle_shape := 5\<rparr>"
  let ?r = "\<lparr>r_ng_rho = [2, 2, 2], r_np_to_deposit = 1, r_depos_lev = 1,
             r_rel_ref_ratio = [1, 1, 1]\<rparr>"
  have h: "particle_shape ?a \<notin> {1, 2, 3, 4}" by simp
  have res: "resolve_args cpu3d ?a (rho ex_state) ?pti = Inr ?r"
            "resolve_args gpu3d ?a (rho ex_state) ?pti = Inr ?r"
    by (simp_all add: model_defs example_defs gpu3d_def numeral_eq_Suc)
  have rng: "range_dep cpu3d (rho ex_state) (r_ng_rho ?r)
               (shape_extent (dim cpu3d) (particle_shape ?a) (particle_shape ?a)
                  (particle_shape ?a)) = [-1, -1, -1]"
            "range_dep gpu3d (rho ex_state) (r_ng_rho ?r)
               (shape_extent (dim gpu3d) (particle_shape ?a) (particle_shape ?a)
                  (particle_shape ?a)) = [-1, -1, -1]"
    by (simp_all add: model_defs example_defs gpu3d_def)
  have oor: "numParticlesOutOfRange ex_collab ?pti [-1, -1, -1] = 0"
    by (simp add: model_defs example_defs)
  have bx: "grow (convert (if GetLevel ?pti = r_depos_lev ?r then tilebox ?pti
                           else coarsen ex_collab (tilebox ?pti) (r_rel_ref_ratio ?r))
                    (ixType (rho ex_state))) (r_ng_rho ?r)
            = \<lparr>smallEnd = [-2, -2, -2], bigEnd = [10, 10, 10], btype = [1, 1, 1]\<rparr>"
    by (simp add: model_defs example_defs convert_def)
  have misc: "\<not> AMREX_USE_GPU cpu3d" "AMREX_USE_GPU gpu3d" "nc ?a = 1" "particle_shape ?a = 5"
    by (simp_all add: example_defs gpu3d_def)
  note tc = unsupported_shape_is_silent
              [OF h, of ex_collab ex_kargs "local_rho ex_state" cpu3d ?pti ex_state ?r]
  note tg = unsupported_shape_is_silent
              [OF h, of ex_collab ex_kargs "local_rho ex_state" gpu3d ?pti ex_state ?r]
  from tc res(1) oor misc
  have A: "dispatch ex_collab 5 ex_kargs (local_rho ex_state) = None \<and>
           fst (deposit_charge cpu3d ex_collab ?pti ?a ex_state) = Returned \<and>
           rho (snd (deposit_charge cpu3d ex_collab ?pti ?a ex_state)) = rho ex_state \<and>
           local_rho (snd (deposit_charge cpu3d ex_collab ?pti ?a ex_state))
             = setVal (resize (local_rho ex_state)
                 \<lparr>smallEnd = [-2, -2, -2], bigEnd = [10, 10, 10], btype = [1, 1, 1]\<rparr> 1) 0"
    unfolding rng bx by simp
  from tg res(2) oor misc
  have "fst (deposit_charge gpu3d ex_collab ?pti ?a ex_state) = Returned \<and>
        snd (deposit_charge gpu3d ex_collab ?pti ?a ex_state) = ex_state"
    unfolding rng by simp
  then have B: "deposit_charge gpu3d ex_collab ?pti ?a ex_state = (Returned, ex_state)"
    by (simp add: prod_eq_iff)
  from A B oor show ?thesis by simp
qed

subsection \<open>Shape factors (claim C8)\<close>

text \<open>
  Claim C8: for every order \<open>n\<close> in \<open>{1, 2, 3, 4}\<close> and every fractional offset within a
  cell the shape factors are \<open>n + 1\<close> weights, none negative, that sum to 1; and for a
  particle exactly on a grid node the weights that are not zero sum to 1.
\<close>

theorem shape_factor_normalised:
  assumes "n \<in> {1, 2, 3, 4}" and "in_cell n xint"
  shows "length (shape_factor n xint) = nat (n + 1) \<and>
         (\<forall>w \<in> set (shape_factor n xint). 0 \<le> w) \<and>
         sum_list (shape_factor n xint) = 1 \<and>
         sum_list (filter (\<lambda>w. w \<noteq> 0) (shape_factor n 0)) = 1"
  using assms shape_factor_length [OF assms(1)] shape_factor_nonneg [OF assms]
    shape_factor_sum [OF assms(1)]
  by (simp only: sum_list_nonzero simp_thms)

text \<open>
  The scenario of the specification: a quadratic particle on a node gives 0.125, 0.75 and
  0.125 to the three nodes around it, a linear particle at the centre of a cell gives 0.5
  to each of the two nodes.
\<close>

theorem shape_factor_normalised_witness:
  "(2::int) \<in> {1, 2, 3, 4} \<and> in_cell 2 0 \<and>
   shape_factor 2 0 = [1/8, 3/4, 1/8] \<and>
   list_all (\<lambda>w. 0 \<le> w) [1/8, 3/4, 1/8 :: real] \<and>
   sum_list [1/8, 3/4, 1/8 :: real] = 1 \<and>
   (1::int) \<in> {1, 2, 3, 4} \<and> in_cell 1 (1/2) \<and>
   shape_factor 1 (1/2) = [1/2, 1/2] \<and>
   sum_list [1/2, 1/2 :: real] = 1"
proof -
  have h2: "(2::int) \<in> {1, 2, 3, 4}" "in_cell 2 0" by (simp_all add: in_cell_def)
  have h1: "(1::int) \<in> {1, 2, 3, 4}" "in_cell 1 (1/2)" by (simp_all add: in_cell_def)
  from shape_factor_normalised [OF h2] shape_factor_normalised [OF h1] h1 h2
  show ?thesis
    unfolding shape_factor_on_node shape_factor_linear_centre by simp
qed

end
